theory Spec2Isabelle
  imports Main "HOL-Library.Char_ord" "HOL-Library.List_Lexorder" "HOL-Library.Sublist"
begin

section \<open>The S-57 export tools: depth.cpp and nobjnm.cpp\<close>

text \<open>
  Both programs are a single \<open>main\<close>: parse the command line, delete an old output
  directory, walk the input tree, and for every \<open>.000\<close> file build one SQL text from
  the layers found and hand it to \<open>GDALVectorTranslate\<close>. The libraries (Boost, GDAL) are
  not part of the repository: what they answer is an input of the model, and what the
  program asks of them is recorded in a trace. \<open>GDALAllRegister\<close>, \<open>CPLSetConfigOption\<close>,
  the closing of datasets and the freeing of options decide nothing and are left out of it.
\<close>

subsection \<open>Characters and strings\<close>

abbreviation sq :: char where "sq \<equiv> CHR 0x27"
abbreviation dq :: char where "dq \<equiv> CHR 0x22"

text \<open>\<open>boost::algorithm::join\<close>: the parts, with the separator between neighbours.\<close>

fun join :: "string \<Rightarrow> string list \<Rightarrow> string" where
  "join sep [] = []"
| "join sep [x] = x"
| "join sep (x # y # ys) = x @ sep @ join sep (y # ys)"

subsection \<open>The vector source\<close>

text \<open>
  \<open>OGRFeatureDefn::GetFieldIndex\<close> answers \<open>-1\<close> for a field the layer does not have;
  \<open>GDALDataset::GetLayerByName\<close> answers a null pointer for a layer the file does not have.
\<close>

record OGRLayer =
  GetFieldIndex :: "string \<Rightarrow> int"

record GDALDataset =
  GetLayerByName :: "string \<Rightarrow> OGRLayer option"

subsection \<open>What the libraries answer\<close>

text \<open>
  One entry of \<open>fs::recursive_directory_iterator\<close>, with the answers of GDAL for it:
  \<open>GDALOpenEx\<close> is the dataset or null, \<open>GDALVectorTranslateOptionsNew\<close> and
  \<open>GDALVectorTranslate\<close> say whether the call returned a non-null pointer.
\<close>

record scanned =
  path_string :: string
  extension :: string
  filename :: string
  GDALOpenEx :: "GDALDataset option"
  GDALVectorTranslateOptionsNew :: bool
  GDALVectorTranslate :: bool

text \<open>
  \<open>fs_exists\<close> is the answer of \<open>fs::exists(outputDir)\<close> (\<open>None\<close>: it throws),
  \<open>fs_remove_all\<close> says whether \<open>fs::remove_all\<close> returns (\<open>False\<close>: it throws),
  \<open>directory\<close> holds the entries the iterator yields and \<open>traversal_fails\<close> says
  whether it throws \<open>fs::filesystem_error\<close> after them.
\<close>

record filesystem =
  fs_exists :: "bool option"
  fs_remove_all :: bool
  directory :: "scanned list"
  traversal_fails :: bool

text \<open>
  The outcome of \<open>po::store\<close>, the \<open>help\<close> test and \<open>po::notify\<close>, in the order of
  the source: \<open>StoreError\<close> and \<open>NotifyError\<close> are the two places a \<open>po::error\<close> is thrown.
\<close>

datatype 'a parsed = StoreError | Help | NotifyError | Options 'a

subsection \<open>What the program does\<close>

datatype message =
    Usage
  | UsageError
  | DeletedOldOutput string
  | Processing string
  | WarnCannotOpen string
  | FoundLand string
  | FoundDepthLayer string string
  | FoundLayerWithField string string
  | FoundLayerWithoutField string string
  | SkipNoLayer
  | Exporting
  | ErrOptionsNew
  | ErrProcessing string
  | FilesystemError
  | AllDone

text \<open>
  \<open>Cout\<close> and \<open>Cerr\<close> are lines on the two streams; the others are library calls with
  their arguments: \<open>Open file openOptions\<close>, and \<open>Translate dest opts ok\<close> with the
  answer of the call.
\<close>

datatype event =
    Cout message
  | Cerr message
  | RemoveAll string
  | Open string "string list"
  | Translate string "string list" bool

datatype exit_status = Exit int | Terminated

record run_state =
  isFirstWrite :: bool
  trace :: "event list"

definition emit :: "event list \<Rightarrow> run_state \<Rightarrow> run_state" where
  "emit es st = st\<lparr>trace := trace st @ es\<rparr>"

text \<open>
  A \<open>for\<close> loop over the layer names that pushes fragments onto \<open>sql_parts\<close> and prints:
  the fragments and the lines of each round, in order.
\<close>

definition layer_loop ::
  "(string \<Rightarrow> string list \<times> event list) \<Rightarrow> string list \<Rightarrow> string list \<times> event list" where
  "layer_loop body layers = (concat (map (fst \<circ> body) layers), concat (map (snd \<circ> body) layers))"

text \<open>
  Section 4 of depth.cpp and section 3 of nobjnm.cpp: the old output directory. Both calls
  are outside the \<open>try\<close> block, so an exception there ends the process: the result is what
  was printed and called, and whether the run goes on.
\<close>

definition prepare_output :: "string \<Rightarrow> filesystem \<Rightarrow> event list \<times> bool" where
  "prepare_output outputDir fs =
     (case fs_exists fs of
        None \<Rightarrow> ([], False)
      | Some False \<Rightarrow> ([], True)
      | Some True \<Rightarrow>
          ([Cout (DeletedOldOutput outputDir), RemoveAll outputDir], fs_remove_all fs))"

subsection \<open>depth.cpp\<close>

record depth_args =
  d_inputDir :: string
  d_outputDir :: string
  d_outputName :: string

text \<open>\<open>std::map<std::string, std::string>\<close>: keys kept in ascending order, the first insertion of a key wins.\<close>

fun map_insert :: "string \<times> string \<Rightarrow> (string \<times> string) list \<Rightarrow> (string \<times> string) list" where
  "map_insert kv [] = [kv]"
| "map_insert kv (p # ps) =
     (if fst kv < fst p then kv # p # ps
      else if fst p < fst kv then p # map_insert kv ps
      else p # ps)"

definition std_map :: "(string \<times> string) list \<Rightarrow> (string \<times> string) list" where
  "std_map inits = foldl (\<lambda>m kv. map_insert kv m) [] inits"

definition depth_map :: "(string \<times> string) list" where
  "depth_map = std_map
     [(''SOUNDG'', ''DEPTH''),
      (''DEPARE'', ''DRVAL1''),
      (''DRGARE'', ''DRVAL1''),
      (''DEPCNT'', ''VALDCO''),
      (''WRECKS'', ''VALSOU''),
      (''OBSTRN'', ''VALSOU''),
      (''UWTROC'', ''VALSOU'')]"

definition all_target_layers :: "string list" where
  "all_target_layers = ''LNDARE'' # map fst depth_map"

definition land_fragment :: "string \<Rightarrow> string" where
  "land_fragment layerName =
     ''SELECT ST_MakeValid(ST_SimplifyPreserveTopology(geometry, 0.00025)) AS WKT, '' @ [sq] @
     layerName @ [sq] @ '' AS LAYERS, CAST(-1 AS REAL) AS DEPTH FROM '' @ [dq] @
     layerName @ [dq]"

definition depth_fragment :: "string \<Rightarrow> string \<Rightarrow> string" where
  "depth_fragment layerName depthField =
     ''SELECT ST_MakeValid(ST_SimplifyPreserveTopology(geometry, 0.00025)) AS WKT, '' @ [sq] @ layerName @
     [sq] @ '' AS LAYERS, CAST('' @ [dq] @ depthField @ [dq] @ '' AS REAL) AS DEPTH FROM '' @ [dq] @
     layerName @ [dq] @ '' WHERE '' @ [dq] @ depthField @ [dq] @ '' IS NOT NULL AND '' @ [dq] @ depthField @
     [dq] @ '' != '' @ [sq, sq]"

text \<open>One round of the loop over \<open>all_target_layers\<close> (lines 115 to 138).\<close>

definition depth_layer :: "GDALDataset \<Rightarrow> string \<Rightarrow> string list \<times> event list" where
  "depth_layer poDS layerName =
     (case GetLayerByName poDS layerName of
        None \<Rightarrow> ([], [])
      | Some poLayer \<Rightarrow>
          if layerName = ''LNDARE''
          then ([land_fragment layerName], [Cout (FoundLand layerName)])
          else (case map_of depth_map layerName of
                  None \<Rightarrow> ([], [])
                | Some depthField \<Rightarrow>
                    ([depth_fragment layerName depthField],
                     [Cout (FoundDepthLayer layerName depthField)])))"

definition depth_opts :: "bool \<Rightarrow> string \<Rightarrow> string \<Rightarrow> string list" where
  "depth_opts first sqlQuery outputName =
     [''-f'', ''CSV'', ''-dialect'', ''SQLite''] @
     (if \<not> first then [''-append''] else []) @
     [''-sql'', sqlQuery, ''-nln'', outputName, ''-lco'', ''GEOMETRY=AS_WKT'', ''-dim'', ''2'']"

text \<open>The body of the loop over the directory entries (lines 93 to 196).\<close>

definition depth_file :: "string \<Rightarrow> string \<Rightarrow> scanned \<Rightarrow> run_state \<Rightarrow> run_state" where
  "depth_file outputDir outputName entry st =
     (if extension entry \<noteq> ''.000'' then st
      else
        let s57_file = path_string entry;
            st1 = emit [Cout (Processing s57_file),
                        Open s57_file [''SPLIT_MULTIPOINT=ON'', ''ADD_SOUNDG_DEPTH=ON'']] st
        in case GDALOpenEx entry of
             None \<Rightarrow> emit [Cerr (WarnCannotOpen s57_file)] st1
           | Some poDS \<Rightarrow>
               let sql_parts = fst (layer_loop (depth_layer poDS) all_target_layers);
                   st2 = emit (snd (layer_loop (depth_layer poDS) all_target_layers)) st1
               in if sql_parts \<noteq> [] then
                    let sqlQuery = join '' UNION ALL '' sql_parts;
                        st3 = emit [Cout Exporting] st2;
                        opts = depth_opts (isFirstWrite st3) sqlQuery outputName
                    in if \<not> GDALVectorTranslateOptionsNew entry
                       then emit [Cerr ErrOptionsNew] st3
                       else
                         let st4 = emit [Translate outputDir opts (GDALVectorTranslate entry)] st3
                         in if GDALVectorTranslate entry
                            then (if isFirstWrite st4 then st4\<lparr>isFirstWrite := False\<rparr> else st4)
                            else emit [Cerr (ErrProcessing s57_file)] st4
                  else emit [Cout SkipNoLayer] st2)"

definition main_depth :: "depth_args parsed \<Rightarrow> filesystem \<Rightarrow> exit_status \<times> run_state" where
  "main_depth cmd fs =
     (case cmd of
        StoreError \<Rightarrow> (Exit 1, \<lparr>isFirstWrite = True, trace = [Cerr UsageError]\<rparr>)
      | Help \<Rightarrow> (Exit 0, \<lparr>isFirstWrite = True, trace = [Cout Usage]\<rparr>)
      | NotifyError \<Rightarrow> (Exit 1, \<lparr>isFirstWrite = True, trace = [Cerr UsageError]\<rparr>)
      | Options args \<Rightarrow>
          (case prepare_output (d_outputDir args) fs of
             (es, False) \<Rightarrow> (Terminated, \<lparr>isFirstWrite = True, trace = es\<rparr>)
           | (es, True) \<Rightarrow>
               let st = fold (depth_file (d_outputDir args) (d_outputName args)) (directory fs)
                          \<lparr>isFirstWrite = True, trace = es\<rparr>
               in if traversal_fails fs
                  then (Exit 1, emit [Cerr FilesystemError] st)
                  else (Exit 0, emit [Cout AllDone] st)))"

subsection \<open>nobjnm.cpp\<close>

record nobjnm_args =
  n_inputDir :: string
  n_outputDir :: string
  n_targetLayers :: "string list"
  n_filterField :: string
  n_outputName :: string

text \<open>Line 135: the chart level, from the name of the file.\<close>

definition level_of :: "string \<Rightarrow> char" where
  "level_of fname = (if length fname \<ge> 3 then fname ! 2 else CHR ''0'')"

definition nobjnm_fragment :: "char \<Rightarrow> string \<Rightarrow> string \<Rightarrow> string" where
  "nobjnm_fragment level layerName filterField =
     ''SELECT ST_MakeValid(ST_SimplifyPreserveTopology(geometry, 0.00025)) AS WKT, '' @ [sq] @ [level] @
     [sq] @ '' AS LEVEL, '' @ [sq] @ layerName @ [sq] @ '' AS LAYERS, '' @
     [dq] @ filterField @ [dq] @ '' FROM '' @ [dq] @ layerName @ [dq] @ '' WHERE '' @ [dq] @ filterField @
     [dq] @ '' IS NOT NULL AND '' @ [dq] @ filterField @ [dq] @ '' != '' @ [sq, sq]"

text \<open>One round of the loop over \<open>targetLayers\<close> (lines 149 to 167).\<close>

definition nobjnm_layer :: "char \<Rightarrow> string \<Rightarrow> GDALDataset \<Rightarrow> string \<Rightarrow> string list \<times> event list" where
  "nobjnm_layer level filterField poDS layerName =
     (case GetLayerByName poDS layerName of
        None \<Rightarrow> ([], [])
      | Some poLayer \<Rightarrow>
          if GetFieldIndex poLayer filterField \<noteq> - 1
          then ([nobjnm_fragment level layerName filterField],
                [Cout (FoundLayerWithField layerName filterField)])
          else ([], [Cout (FoundLayerWithoutField layerName filterField)]))"

definition nobjnm_opts :: "bool \<Rightarrow> string \<Rightarrow> string \<Rightarrow> string list" where
  "nobjnm_opts first sqlQuery outputName =
     [''-f'', ''CSV'', ''-dialect'', ''SQLite''] @
     (if \<not> first then [''-append''] else []) @
     [''-sql'', sqlQuery, ''-nln'', outputName, ''-lco'', ''GEOMETRY=AS_WKT'']"

text \<open>
  The body of the loop over the directory entries (lines 129 to 225). The first call
  \<open>GDALVectorTranslateOptionsNew(nullptr, nullptr)\<close> of line 174 is overwritten unread at
  line 203; the answer modelled is that of the second call.
\<close>

definition nobjnm_file :: "nobjnm_args \<Rightarrow> scanned \<Rightarrow> run_state \<Rightarrow> run_state" where
  "nobjnm_file args entry st =
     (if extension entry \<noteq> ''.000'' then st
      else
        let s57_file = path_string entry;
            level = level_of (filename entry);
            st1 = emit [Cout (Processing s57_file), Open s57_file []] st
        in case GDALOpenEx entry of
             None \<Rightarrow> emit [Cerr (WarnCannotOpen s57_file)] st1
           | Some poDS \<Rightarrow>
               let body = nobjnm_layer level (n_filterField args) poDS;
                   sql_parts = fst (layer_loop body (n_targetLayers args));
                   st2 = emit (snd (layer_loop body (n_targetLayers args))) st1
               in if sql_parts \<noteq> [] then
                    let sqlQuery = join '' UNION ALL '' sql_parts;
                        st3 = emit [Cout Exporting] st2;
                        opts = nobjnm_opts (isFirstWrite st3) sqlQuery (n_outputName args)
                    in if \<not> GDALVectorTranslateOptionsNew entry
                       then emit [Cerr ErrOptionsNew] st3
                       else
                         let st4 = emit [Translate (n_outputDir args) opts (GDALVectorTranslate entry)] st3
                         in if GDALVectorTranslate entry
                            then (if isFirstWrite st4 then st4\<lparr>isFirstWrite := False\<rparr> else st4)
                            else emit [Cerr (ErrProcessing s57_file)] st4
                  else emit [Cout SkipNoLayer] st2)"

definition main_nobjnm :: "nobjnm_args parsed \<Rightarrow> filesystem \<Rightarrow> exit_status \<times> run_state" where
  "main_nobjnm cmd fs =
     (case cmd of
        StoreError \<Rightarrow> (Exit 1, \<lparr>isFirstWrite = True, trace = [Cerr UsageError]\<rparr>)
      | Help \<Rightarrow> (Exit 0, \<lparr>isFirstWrite = True, trace = [Cout Usage]\<rparr>)
      | NotifyError \<Rightarrow> (Exit 1, \<lparr>isFirstWrite = True, trace = [Cerr UsageError]\<rparr>)
      | Options args \<Rightarrow>
          (case prepare_output (n_outputDir args) fs of
             (es, False) \<Rightarrow> (Terminated, \<lparr>isFirstWrite = True, trace = es\<rparr>)
           | (es, True) \<Rightarrow>
               let st = fold (nobjnm_file args) (directory fs) \<lparr>isFirstWrite = True, trace = es\<rparr>
               in if traversal_fails fs
                  then (Exit 1, emit [Cerr FilesystemError] st)
                  else (Exit 0, emit [Cout AllDone] st)))"

subsection \<open>Reading a trace\<close>

text \<open>The calls of \<open>GDALVectorTranslate\<close> in a trace: destination, options, answer.\<close>

fun exports :: "event list \<Rightarrow> (string \<times> string list \<times> bool) list" where
  "exports [] = []"
| "exports (Translate dest opts ok # tr) = (dest, opts, ok) # exports tr"
| "exports (_ # tr) = exports tr"

text \<open>The calls of \<open>fs::remove_all\<close> in a trace.\<close>

fun removals :: "event list \<Rightarrow> string list" where
  "removals [] = []"
| "removals (RemoveAll p # tr) = p # removals tr"
| "removals (_ # tr) = removals tr"

text \<open>
  What one directory entry adds to the exports, given the flag it meets: nothing, or the
  one call on the joined fragments.
\<close>

definition depth_export :: "string \<Rightarrow> string \<Rightarrow> scanned \<Rightarrow> bool \<Rightarrow> (string \<times> string list \<times> bool) list" where
  "depth_export outputDir outputName entry first =
     (if extension entry = ''.000'' \<and> GDALVectorTranslateOptionsNew entry then
        (case GDALOpenEx entry of
           None \<Rightarrow> []
         | Some poDS \<Rightarrow>
             if fst (layer_loop (depth_layer poDS) all_target_layers) \<noteq> [] then
               [(outputDir,
                 depth_opts first
                   (join '' UNION ALL '' (fst (layer_loop (depth_layer poDS) all_target_layers)))
                   outputName,
                 GDALVectorTranslate entry)]
             else [])
      else [])"

definition nobjnm_export :: "nobjnm_args \<Rightarrow> scanned \<Rightarrow> bool \<Rightarrow> (string \<times> string list \<times> bool) list" where
  "nobjnm_export args entry first =
     (if extension entry = ''.000'' \<and> GDALVectorTranslateOptionsNew entry then
        (case GDALOpenEx entry of
           None \<Rightarrow> []
         | Some poDS \<Rightarrow>
             if fst (layer_loop (nobjnm_layer (level_of (filename entry)) (n_filterField args) poDS)
                       (n_targetLayers args)) \<noteq> [] then
               [(n_outputDir args,
                 nobjnm_opts first
                   (join '' UNION ALL ''
                      (fst (layer_loop (nobjnm_layer (level_of (filename entry)) (n_filterField args) poDS)
                              (n_targetLayers args))))
                   (n_outputName args),
                 GDALVectorTranslate entry)]
             else [])
      else [])"

text \<open>The fragment the depth tool builds for a layer name: the land constant, or the cast of its depth field.\<close>

definition depth_rule :: "string \<Rightarrow> string" where
  "depth_rule n = (if n = ''LNDARE'' then land_fragment n
                   else case map_of depth_map n of None \<Rightarrow> [] | Some fld \<Rightarrow> depth_fragment n fld)"

subsection \<open>Example inputs\<close>

text \<open>A layer with the given field names, and a cell file with the given layers.\<close>

fun field_index :: "string list \<Rightarrow> string \<Rightarrow> int" where
  "field_index [] f = - 1"
| "field_index (g # gs) f =
     (if g = f then 0 else if field_index gs f = - 1 then - 1 else field_index gs f + 1)"

definition example_layer :: "string list \<Rightarrow> OGRLayer" where
  "example_layer names = \<lparr>GetFieldIndex = field_index names\<rparr>"

definition example_cell :: "(string \<times> string list) list \<Rightarrow> GDALDataset" where
  "example_cell layers = \<lparr>GetLayerByName = map_option example_layer \<circ> map_of layers\<rparr>"

definition example_entry :: "string \<Rightarrow> string \<Rightarrow> GDALDataset option \<Rightarrow> bool \<Rightarrow> scanned" where
  "example_entry dir name ds ok =
     \<lparr>path_string = dir @ ''/'' @ name @ ''.000'', extension = ''.000'', filename = name @ ''.000'',
      GDALOpenEx = ds, GDALVectorTranslateOptionsNew = True, GDALVectorTranslate = ok\<rparr>"

definition example_depth_args :: depth_args where
  "example_depth_args = \<lparr>d_inputDir = ''in'', d_outputDir = ''out'', d_outputName = ''depth''\<rparr>"

definition example_nobjnm_args :: nobjnm_args where
  "example_nobjnm_args =
     \<lparr>n_inputDir = ''in'', n_outputDir = ''out'',
      n_targetLayers = [''LNDARE'', ''DEPARE'', ''SEAARE'', ''HRBFAC'', ''BRIDGE''],
      n_filterField = ''NOBJNM'', n_outputName = ''nobjnm''\<rparr>"

definition example_chart :: GDALDataset where
  "example_chart = example_cell
     [(''SOUNDG'', [''DEPTH'']), (''SEAARE'', [''OBJNAM'', ''NOBJNM'']),
      (''DEPARE'', [''DRVAL1'']), (''LNDARE'', [''NOBJNM''])]"

text \<open>
  A run over five files: an export that fails, a file that does not open, an export that
  succeeds, a file with no target layer, and one more export.
\<close>

definition example_fs :: filesystem where
  "example_fs =
     \<lparr>fs_exists = Some True, fs_remove_all = True,
      directory =
        [example_entry ''in'' ''US5AA01M'' (Some example_chart) False,
         example_entry ''in'' ''US5AA02M'' None True,
         example_entry ''in'' ''US5AA03M'' (Some example_chart) True,
         example_entry ''in'' ''US5AA04M'' (Some (example_cell [])) True,
         example_entry ''in'' ''US5AA05M'' (Some example_chart) True],
      traversal_fails = False\<rparr>"

definition example_depth_query :: string where
  "example_depth_query =
     land_fragment ''LNDARE'' @ '' UNION ALL '' @ depth_fragment ''DEPARE'' ''DRVAL1'' @ '' UNION ALL '' @
     depth_fragment ''SOUNDG'' ''DEPTH''"

definition example_nobjnm_query :: string where
  "example_nobjnm_query =
     nobjnm_fragment (CHR ''5'') ''LNDARE'' ''NOBJNM'' @ '' UNION ALL '' @
     nobjnm_fragment (CHR ''5'') ''SEAARE'' ''NOBJNM''"

section \<open>Properties\<close>

subsection \<open>Traces and loops\<close>

lemma trace_emit: "trace (emit es st) = trace st @ es"
  by (simp add: emit_def)

lemma isFirstWrite_emit: "isFirstWrite (emit es st) = isFirstWrite st"
  by (simp add: emit_def)

lemma exports_append: "exports (xs @ ys) = exports xs @ exports ys"
  by (induction xs rule: exports.induct) simp_all

lemma removals_append: "removals (xs @ ys) = removals xs @ removals ys"
  by (induction xs rule: removals.induct) simp_all

lemma depth_map_eq:
  "depth_map = [(''DEPARE'', ''DRVAL1''), (''DEPCNT'', ''VALDCO''), (''DRGARE'', ''DRVAL1''),
     (''OBSTRN'', ''VALSOU''), (''SOUNDG'', ''DEPTH''), (''UWTROC'', ''VALSOU''), (''WRECKS'', ''VALSOU'')]"
  by code_simp

lemma all_target_layers_eq:
  "all_target_layers = [''LNDARE'', ''DEPARE'', ''DEPCNT'', ''DRGARE'', ''OBSTRN'', ''SOUNDG'', ''UWTROC'', ''WRECKS'']"
  by (simp add: all_target_layers_def depth_map_eq)

lemma fst_layer_loop: "fst (layer_loop body layers) = concat (map (fst \<circ> body) layers)"
  by (simp add: layer_loop_def)

lemma snd_layer_loop: "snd (layer_loop body layers) = concat (map (snd \<circ> body) layers)"
  by (simp add: layer_loop_def)

lemma exports_concat_Nil: "(\<And>x. x \<in> set xs \<Longrightarrow> exports (g x) = []) \<Longrightarrow> exports (concat (map g xs)) = []"
  by (induction xs) (simp_all add: exports_append)

lemma removals_concat_Nil: "(\<And>x. x \<in> set xs \<Longrightarrow> removals (g x) = []) \<Longrightarrow> removals (concat (map g xs)) = []"
  by (induction xs) (simp_all add: removals_append)

lemma exports_depth_layer: "exports (snd (depth_layer poDS n)) = []"
  by (simp add: depth_layer_def split: option.splits)

lemma exports_nobjnm_layer: "exports (snd (nobjnm_layer lv f poDS n)) = []"
  by (simp add: nobjnm_layer_def split: option.splits)

lemma exports_depth_loop: "exports (snd (layer_loop (depth_layer poDS) ls)) = []"
  by (simp add: snd_layer_loop exports_concat_Nil exports_depth_layer)

lemma exports_nobjnm_loop: "exports (snd (layer_loop (nobjnm_layer lv f poDS) ls)) = []"
  by (simp add: snd_layer_loop exports_concat_Nil exports_nobjnm_layer)

lemma exports_depth_file:
  "exports (trace (depth_file d n e st)) = exports (trace st) @ depth_export d n e (isFirstWrite st)"
  by (cases "GDALOpenEx e")
     (simp_all add: depth_file_def depth_export_def Let_def trace_emit isFirstWrite_emit exports_append
        exports_depth_loop)

lemma depth_export_None: "GDALOpenEx e = None \<Longrightarrow> depth_export d n e b = []"
  by (simp add: depth_export_def)

lemma depth_export_Some:
  "GDALOpenEx e = Some poDS \<Longrightarrow>
   depth_export d n e b =
     (if extension e = ''.000'' \<and> GDALVectorTranslateOptionsNew e \<and>
         fst (layer_loop (depth_layer poDS) all_target_layers) \<noteq> []
      then [(d, depth_opts b (join '' UNION ALL '' (fst (layer_loop (depth_layer poDS) all_target_layers))) n,
             GDALVectorTranslate e)]
      else [])"
  by (simp add: depth_export_def)

lemma flag_depth_file:
  "isFirstWrite (depth_file d n e st) =
     (isFirstWrite st \<and> (\<forall>x \<in> set (depth_export d n e (isFirstWrite st)). \<not> snd (snd x)))"
proof (cases "GDALOpenEx e")
  case None
  then show ?thesis
    by (simp add: depth_export_None) (simp add: depth_file_def Let_def isFirstWrite_emit)
next
  case (Some poDS)
  then show ?thesis
    by (simp add: depth_export_Some) (simp add: depth_file_def Let_def isFirstWrite_emit)
qed

lemma exports_nobjnm_file:
  "exports (trace (nobjnm_file a e st)) = exports (trace st) @ nobjnm_export a e (isFirstWrite st)"
  by (cases "GDALOpenEx e")
     (simp_all add: nobjnm_file_def nobjnm_export_def Let_def trace_emit isFirstWrite_emit exports_append
        exports_nobjnm_loop)

lemma nobjnm_export_None: "GDALOpenEx e = None \<Longrightarrow> nobjnm_export a e b = []"
  by (simp add: nobjnm_export_def)

lemma nobjnm_export_Some:
  "GDALOpenEx e = Some poDS \<Longrightarrow>
   nobjnm_export a e b =
     (if extension e = ''.000'' \<and> GDALVectorTranslateOptionsNew e \<and>
         fst (layer_loop (nobjnm_layer (level_of (filename e)) (n_filterField a) poDS) (n_targetLayers a)) \<noteq> []
      then [(n_outputDir a,
             nobjnm_opts b
               (join '' UNION ALL ''
                  (fst (layer_loop (nobjnm_layer (level_of (filename e)) (n_filterField a) poDS)
                          (n_targetLayers a))))
               (n_outputName a),
             GDALVectorTranslate e)]
      else [])"
  by (simp add: nobjnm_export_def)

lemma flag_nobjnm_file:
  "isFirstWrite (nobjnm_file a e st) =
     (isFirstWrite st \<and> (\<forall>x \<in> set (nobjnm_export a e (isFirstWrite st)). \<not> snd (snd x)))"
proof (cases "GDALOpenEx e")
  case None
  then show ?thesis
    by (simp add: nobjnm_export_None) (simp add: nobjnm_file_def Let_def isFirstWrite_emit)
next
  case (Some poDS)
  then show ?thesis
    by (simp add: nobjnm_export_Some) (simp add: nobjnm_file_def Let_def isFirstWrite_emit)
qed

text \<open>The invariant of the loop over the directory, for any body that adds exports as above.\<close>

lemma fold_exports:
  assumes ex: "\<And>e st. exports (trace (f e st)) = exports (trace st) @ X e (isFirstWrite st)"
    and fl: "\<And>e st. isFirstWrite (f e st) = (isFirstWrite st \<and> (\<forall>x \<in> set (X e (isFirstWrite st)). \<not> snd (snd x)))"
    and sh: "\<And>e b x. x \<in> set (X e b) \<Longrightarrow> X e b = [x] \<and> fst x = d \<and> (\<exists>q. fst (snd x) = mk b q)"
    and i1: "isFirstWrite st = (\<forall>x \<in> set (exports (trace st)). \<not> snd (snd x))"
    and i2: "\<And>pre x post. exports (trace st) = pre @ x # post \<Longrightarrow>
               fst x = d \<and> (\<exists>q. fst (snd x) = mk (\<forall>y \<in> set pre. \<not> snd (snd y)) q)"
  shows "isFirstWrite (fold f es st) = (\<forall>x \<in> set (exports (trace (fold f es st))). \<not> snd (snd x)) \<and>
         (\<forall>pre x post. exports (trace (fold f es st)) = pre @ x # post \<longrightarrow>
               fst x = d \<and> (\<exists>q. fst (snd x) = mk (\<forall>y \<in> set pre. \<not> snd (snd y)) q))"
  using i1 i2
proof (induction es arbitrary: st)
  case Nil
  then show ?case by simp
next
  case (Cons e es)
  have a: "isFirstWrite (f e st) = (\<forall>x \<in> set (exports (trace (f e st))). \<not> snd (snd x))"
    using Cons.prems(1) by (auto simp: ex fl)
  have b: "fst x = d \<and> (\<exists>q. fst (snd x) = mk (\<forall>y \<in> set pre. \<not> snd (snd y)) q)"
    if h: "exports (trace (f e st)) = pre @ x # post" for pre x post
  proof (cases "X e (isFirstWrite st)")
    case Nil
    then show ?thesis using h Cons.prems(2) by (simp add: ex)
  next
    case (Cons y ys)
    then have y: "X e (isFirstWrite st) = [y]" "fst y = d" "\<exists>q. fst (snd y) = mk (isFirstWrite st) q"
      using sh [of y e "isFirstWrite st"] by auto
    from h y(1) have hh: "exports (trace st) @ [y] = pre @ x # post" by (simp add: ex)
    show ?thesis
    proof (cases post rule: rev_cases)
      case Nil
      with hh have "pre = exports (trace st)" "x = y" by auto
      then show ?thesis using y Cons.prems(1) by simp
    next
      case (snoc post' z)
      with hh have "exports (trace st) = pre @ x # post'" by (metis append.assoc append_Cons butlast_snoc)
      then show ?thesis using Cons.prems(2) by blast
    qed
  qed
  show ?case using Cons.IH [of "f e st", OF a b] by simp
qed

lemma loop_filter:
  assumes "\<And>n. n \<in> set ns \<Longrightarrow> fst (body n) = (if P n then [h n] else [])"
  shows "fst (layer_loop body ns) = map h (filter P ns)"
  using assms by (induction ns) (simp_all add: fst_layer_loop)

lemma filter_pairs:
  assumes "\<And>x. x \<in> set xs \<Longrightarrow> P x = Q x"
  shows "map h (filter P xs) = map snd (filter (\<lambda>p. Q (fst p)) (map (\<lambda>x. (x, h x)) xs))"
  using assms by (induction xs) simp_all

lemma depth_layer_fst:
  "fst (depth_layer poDS n) =
     (if GetLayerByName poDS n \<noteq> None \<and> (n = ''LNDARE'' \<or> map_of depth_map n \<noteq> None)
      then [depth_rule n] else [])"
  by (simp add: depth_layer_def depth_rule_def split: option.split)

lemma targets_have_rule: "\<forall>n \<in> set all_target_layers. n = ''LNDARE'' \<or> map_of depth_map n \<noteq> None"
  by code_simp

lemma depth_rules:
  "map (\<lambda>n. (n, depth_rule n)) all_target_layers =
       [(''LNDARE'', land_fragment ''LNDARE''),
        (''DEPARE'', depth_fragment ''DEPARE'' ''DRVAL1''),
        (''DEPCNT'', depth_fragment ''DEPCNT'' ''VALDCO''),
        (''DRGARE'', depth_fragment ''DRGARE'' ''DRVAL1''),
        (''OBSTRN'', depth_fragment ''OBSTRN'' ''VALSOU''),
        (''SOUNDG'', depth_fragment ''SOUNDG'' ''DEPTH''),
        (''UWTROC'', depth_fragment ''UWTROC'' ''VALSOU''),
        (''WRECKS'', depth_fragment ''WRECKS'' ''VALSOU'')]"
  by code_simp

lemma depth_parts:
  "fst (layer_loop (depth_layer poDS) all_target_layers) =
     map snd (filter (\<lambda>p. GetLayerByName poDS (fst p) \<noteq> None)
       [(''LNDARE'', land_fragment ''LNDARE''),
        (''DEPARE'', depth_fragment ''DEPARE'' ''DRVAL1''),
        (''DEPCNT'', depth_fragment ''DEPCNT'' ''VALDCO''),
        (''DRGARE'', depth_fragment ''DRGARE'' ''DRVAL1''),
        (''OBSTRN'', depth_fragment ''OBSTRN'' ''VALSOU''),
        (''SOUNDG'', depth_fragment ''SOUNDG'' ''DEPTH''),
        (''UWTROC'', depth_fragment ''UWTROC'' ''VALSOU''),
        (''WRECKS'', depth_fragment ''WRECKS'' ''VALSOU'')])"
proof -
  have "fst (layer_loop (depth_layer poDS) all_target_layers) =
          map depth_rule
            (filter (\<lambda>n. GetLayerByName poDS n \<noteq> None \<and> (n = ''LNDARE'' \<or> map_of depth_map n \<noteq> None))
               all_target_layers)"
    by (rule loop_filter) (rule depth_layer_fst)
  also have "\<dots> = map snd (filter (\<lambda>p. GetLayerByName poDS (fst p) \<noteq> None)
                       (map (\<lambda>n. (n, depth_rule n)) all_target_layers))"
    by (rule filter_pairs) (use targets_have_rule in blast)
  finally show ?thesis
    by (simp only: depth_rules)
qed

lemma nobjnm_parts:
  "fst (layer_loop (nobjnm_layer level f poDS) layers) =
     map (\<lambda>n. nobjnm_fragment level n f)
       (filter (\<lambda>n. \<exists>l. GetLayerByName poDS n = Some l \<and> GetFieldIndex l f \<noteq> - 1) layers)"
  by (rule loop_filter) (auto simp add: nobjnm_layer_def split: option.split)

lemma depth_layers_sorted:
  "sorted_wrt (<) [''DEPARE'', ''DEPCNT'', ''DRGARE'', ''OBSTRN'', ''SOUNDG'', ''UWTROC'', ''WRECKS'']"
  by code_simp

lemma depth_file_export:
  "extension e = ''.000'' \<Longrightarrow> GDALOpenEx e = Some poDS \<Longrightarrow> GDALVectorTranslateOptionsNew e \<Longrightarrow>
   fst (layer_loop (depth_layer poDS) all_target_layers) \<noteq> [] \<Longrightarrow>
   exports (trace (depth_file d n e st)) =
     exports (trace st) @
     [(d, depth_opts (isFirstWrite st)
            (join '' UNION ALL '' (fst (layer_loop (depth_layer poDS) all_target_layers))) n,
       GDALVectorTranslate e)]"
  by (simp add: exports_depth_file depth_export_Some)

lemma nobjnm_file_export:
  "extension e = ''.000'' \<Longrightarrow> GDALOpenEx e = Some poDS \<Longrightarrow> GDALVectorTranslateOptionsNew e \<Longrightarrow>
   fst (layer_loop (nobjnm_layer (level_of (filename e)) (n_filterField a) poDS) (n_targetLayers a)) \<noteq> [] \<Longrightarrow>
   exports (trace (nobjnm_file a e st)) =
     exports (trace st) @
     [(n_outputDir a,
       nobjnm_opts (isFirstWrite st)
         (join '' UNION ALL ''
            (fst (layer_loop (nobjnm_layer (level_of (filename e)) (n_filterField a) poDS)
                    (n_targetLayers a))))
         (n_outputName a),
       GDALVectorTranslate e)]"
  by (simp add: exports_nobjnm_file nobjnm_export_Some)

text \<open>
  Claim C10. The order of the fragments is fixed by the tool. In the depth tool the names are
  \<open>LNDARE\<close> first and then the keys of \<open>depth_map\<close> in ascending lexicographic
  order, and the fragments are those of the layers present, in that order. In the generic tool
  the fragments follow the \<open>--layers\<close> list. The query handed to the export is the
  fragments joined with \<open>" UNION ALL "\<close>.
\<close>

theorem fragment_order:
  "all_target_layers =
     [''LNDARE'', ''DEPARE'', ''DEPCNT'', ''DRGARE'', ''OBSTRN'', ''SOUNDG'', ''UWTROC'', ''WRECKS''] \<and>
   sorted_wrt (<) (tl all_target_layers) \<and>
   fst (layer_loop (depth_layer poDS) all_target_layers) =
     map snd (filter (\<lambda>p. GetLayerByName poDS (fst p) \<noteq> None)
       [(''LNDARE'', land_fragment ''LNDARE''),
        (''DEPARE'', depth_fragment ''DEPARE'' ''DRVAL1''),
        (''DEPCNT'', depth_fragment ''DEPCNT'' ''VALDCO''),
        (''DRGARE'', depth_fragment ''DRGARE'' ''DRVAL1''),
        (''OBSTRN'', depth_fragment ''OBSTRN'' ''VALSOU''),
        (''SOUNDG'', depth_fragment ''SOUNDG'' ''DEPTH''),
        (''UWTROC'', depth_fragment ''UWTROC'' ''VALSOU''),
        (''WRECKS'', depth_fragment ''WRECKS'' ''VALSOU'')]) \<and>
   fst (layer_loop (nobjnm_layer level f poDS) layers) =
     map (\<lambda>n. nobjnm_fragment level n f)
       (filter (\<lambda>n. \<exists>l. GetLayerByName poDS n = Some l \<and> GetFieldIndex l f \<noteq> - 1) layers) \<and>
   (extension e = ''.000'' \<and> GDALOpenEx e = Some poDS \<and> GDALVectorTranslateOptionsNew e \<longrightarrow>
      (fst (layer_loop (depth_layer poDS) all_target_layers) \<noteq> [] \<longrightarrow>
         exports (trace (depth_file d n e st)) =
           exports (trace st) @
           [(d, depth_opts (isFirstWrite st)
                  (join '' UNION ALL '' (fst (layer_loop (depth_layer poDS) all_target_layers))) n,
             GDALVectorTranslate e)]) \<and>
      (fst (layer_loop (nobjnm_layer (level_of (filename e)) (n_filterField a) poDS) (n_targetLayers a)) \<noteq> [] \<longrightarrow>
         exports (trace (nobjnm_file a e st)) =
           exports (trace st) @
           [(n_outputDir a,
             nobjnm_opts (isFirstWrite st)
               (join '' UNION ALL ''
                  (fst (layer_loop (nobjnm_layer (level_of (filename e)) (n_filterField a) poDS)
                          (n_targetLayers a))))
               (n_outputName a),
             GDALVectorTranslate e)]))"
proof (intro conjI impI; (elim conjE)?)
  show "all_target_layers =
     [''LNDARE'', ''DEPARE'', ''DEPCNT'', ''DRGARE'', ''OBSTRN'', ''SOUNDG'', ''UWTROC'', ''WRECKS'']"
    by (rule all_target_layers_eq)
  show "sorted_wrt (<) (tl all_target_layers)"
    using depth_layers_sorted by (simp only: all_target_layers_eq list.sel)
qed (rule depth_parts nobjnm_parts depth_file_export nobjnm_file_export; assumption)+

lemma example_chart_layers:
  "GetLayerByName example_chart ''LNDARE'' = Some (example_layer [''NOBJNM''])"
  "GetLayerByName example_chart ''DEPARE'' = Some (example_layer [''DRVAL1''])"
  "GetLayerByName example_chart ''DEPCNT'' = None"
  "GetLayerByName example_chart ''DRGARE'' = None"
  "GetLayerByName example_chart ''OBSTRN'' = None"
  "GetLayerByName example_chart ''SOUNDG'' = Some (example_layer [''DEPTH''])"
  "GetLayerByName example_chart ''UWTROC'' = None"
  "GetLayerByName example_chart ''WRECKS'' = None"
  "GetLayerByName example_chart ''SEAARE'' = Some (example_layer [''OBJNAM'', ''NOBJNM''])"
  "GetLayerByName example_chart ''HRBFAC'' = None"
  "GetLayerByName example_chart ''BRIDGE'' = None"
  by (simp_all add: example_chart_def example_cell_def)

lemma example_layer_fields:
  "GetFieldIndex (example_layer [''NOBJNM'']) ''NOBJNM'' = 0"
  "GetFieldIndex (example_layer [''DRVAL1'']) ''NOBJNM'' = - 1"
  "GetFieldIndex (example_layer [''OBJNAM'', ''NOBJNM'']) ''NOBJNM'' = 1"
  "GetFieldIndex (example_layer []) ''DRVAL1'' = - 1"
  by (simp_all add: example_layer_def)

theorem fragment_order_witness:
  "extension (example_entry ''in'' ''US5AA01M'' (Some example_chart) True) = ''.000'' \<and>
   GDALOpenEx (example_entry ''in'' ''US5AA01M'' (Some example_chart) True) = Some example_chart \<and>
   GDALVectorTranslateOptionsNew (example_entry ''in'' ''US5AA01M'' (Some example_chart) True) \<and>
   fst (layer_loop (depth_layer example_chart) all_target_layers) =
     [land_fragment ''LNDARE'', depth_fragment ''DEPARE'' ''DRVAL1'', depth_fragment ''SOUNDG'' ''DEPTH''] \<and>
   exports (trace (depth_file ''out'' ''depth'' (example_entry ''in'' ''US5AA01M'' (Some example_chart) True)
                     \<lparr>isFirstWrite = True, trace = []\<rparr>)) =
     [(''out'',
       depth_opts True
         (land_fragment ''LNDARE'' @ '' UNION ALL '' @ depth_fragment ''DEPARE'' ''DRVAL1'' @ '' UNION ALL '' @
          depth_fragment ''SOUNDG'' ''DEPTH'')
         ''depth'',
       True)] \<and>
   fst (layer_loop (nobjnm_layer (CHR ''5'') ''NOBJNM'' example_chart)
          [''SEAARE'', ''LNDARE'', ''DEPARE'', ''BRIDGE'']) =
     [nobjnm_fragment (CHR ''5'') ''SEAARE'' ''NOBJNM'', nobjnm_fragment (CHR ''5'') ''LNDARE'' ''NOBJNM'']"
  using fragment_order [of example_chart "CHR ''5''" "''NOBJNM''" "[''SEAARE'', ''LNDARE'', ''DEPARE'', ''BRIDGE'']"
      "example_entry ''in'' ''US5AA01M'' (Some example_chart) True" "''out''" "''depth''"
      "\<lparr>isFirstWrite = True, trace = []\<rparr>" example_nobjnm_args]
  by (simp add: example_chart_layers example_layer_fields example_entry_def)

lemma level_of_cases:
  "level_of fname = (case fname of a # b # c # rest \<Rightarrow> c | _ \<Rightarrow> CHR ''0'')"
  by (simp add: level_of_def numeral_2_eq_2 numeral_3_eq_3 split: list.split)

subsection \<open>The example chart\<close>

lemma example_depth_parts:
  "fst (layer_loop (depth_layer example_chart) all_target_layers) =
     [land_fragment ''LNDARE'', depth_fragment ''DEPARE'' ''DRVAL1'', depth_fragment ''SOUNDG'' ''DEPTH'']"
  by (simp add: depth_parts example_chart_layers)

lemma example_nobjnm_parts:
  "fst (layer_loop (nobjnm_layer level ''NOBJNM'' example_chart)
          [''LNDARE'', ''DEPARE'', ''SEAARE'', ''HRBFAC'', ''BRIDGE'']) =
     [nobjnm_fragment level ''LNDARE'' ''NOBJNM'', nobjnm_fragment level ''SEAARE'' ''NOBJNM'']"
  by (simp add: nobjnm_parts example_chart_layers example_layer_fields)

lemma soundings_not_land: "depth_fragment ''SOUNDG'' ''DEPTH'' \<noteq> land_fragment ''LNDARE''"
  by code_simp




subsection \<open>The exports of a whole run\<close>

lemma depth_export_shape:
  "x \<in> set (depth_export d n e b) \<Longrightarrow>
   depth_export d n e b = [x] \<and> fst x = d \<and> (\<exists>q. fst (snd x) = depth_opts b q n)"
  by (cases "GDALOpenEx e") (auto simp add: depth_export_None depth_export_Some split: if_splits)

lemma nobjnm_export_shape:
  "x \<in> set (nobjnm_export a e b) \<Longrightarrow>
   nobjnm_export a e b = [x] \<and> fst x = n_outputDir a \<and> (\<exists>q. fst (snd x) = nobjnm_opts b q (n_outputName a))"
  by (cases "GDALOpenEx e") (auto simp add: nobjnm_export_None nobjnm_export_Some split: if_splits)

lemma exports_prepare_output: "exports (fst (prepare_output d fs)) = []"
  by (simp add: prepare_output_def split: option.split bool.split)

lemma main_depth_Some:
  "prepare_output (d_outputDir a) fs = (es, True) \<Longrightarrow>
   main_depth (Options a) fs =
     (if traversal_fails fs then Exit 1 else Exit 0,
      emit [if traversal_fails fs then Cerr FilesystemError else Cout AllDone]
        (fold (depth_file (d_outputDir a) (d_outputName a)) (directory fs) \<lparr>isFirstWrite = True, trace = es\<rparr>))"
  by (simp add: main_depth_def Let_def)

lemma main_depth_None:
  "prepare_output (d_outputDir a) fs = (es, False) \<Longrightarrow>
   main_depth (Options a) fs = (Terminated, \<lparr>isFirstWrite = True, trace = es\<rparr>)"
  by (simp add: main_depth_def)

lemma main_nobjnm_Some:
  "prepare_output (n_outputDir a) fs = (es, True) \<Longrightarrow>
   main_nobjnm (Options a) fs =
     (if traversal_fails fs then Exit 1 else Exit 0,
      emit [if traversal_fails fs then Cerr FilesystemError else Cout AllDone]
        (fold (nobjnm_file a) (directory fs) \<lparr>isFirstWrite = True, trace = es\<rparr>))"
  by (simp add: main_nobjnm_def Let_def)

lemma main_nobjnm_None:
  "prepare_output (n_outputDir a) fs = (es, False) \<Longrightarrow>
   main_nobjnm (Options a) fs = (Terminated, \<lparr>isFirstWrite = True, trace = es\<rparr>)"
  by (simp add: main_nobjnm_def)

lemma main_depth_exports:
  "isFirstWrite (snd (main_depth (Options a) fs)) =
     (\<forall>x \<in> set (exports (trace (snd (main_depth (Options a) fs)))). \<not> snd (snd x)) \<and>
   (\<forall>pre x post. exports (trace (snd (main_depth (Options a) fs))) = pre @ x # post \<longrightarrow>
      fst x = d_outputDir a \<and>
      (\<exists>q. fst (snd x) = depth_opts (\<forall>y \<in> set pre. \<not> snd (snd y)) q (d_outputName a)))"
proof (cases "prepare_output (d_outputDir a) fs")
  case (Pair es ok)
  have e0: "exports es = []" using exports_prepare_output [of "d_outputDir a" fs] Pair by simp
  show ?thesis
  proof (cases ok)
    case False
    then show ?thesis using Pair e0 by (simp add: main_depth_None)
  next
    case True
    then have Some: "prepare_output (d_outputDir a) fs = (es, True)" using Pair by simp
  let ?st0 = "\<lparr>isFirstWrite = True, trace = es\<rparr>"
  have "isFirstWrite (fold (depth_file (d_outputDir a) (d_outputName a)) (directory fs) ?st0) =
          (\<forall>x \<in> set (exports (trace (fold (depth_file (d_outputDir a) (d_outputName a)) (directory fs) ?st0))).
              \<not> snd (snd x)) \<and>
        (\<forall>pre x post.
            exports (trace (fold (depth_file (d_outputDir a) (d_outputName a)) (directory fs) ?st0)) = pre @ x # post \<longrightarrow>
            fst x = d_outputDir a \<and>
            (\<exists>q. fst (snd x) = depth_opts (\<forall>y \<in> set pre. \<not> snd (snd y)) q (d_outputName a)))"
    by (rule fold_exports [where X = "depth_export (d_outputDir a) (d_outputName a)"])
       (simp_all add: exports_depth_file flag_depth_file depth_export_shape e0)
  then show ?thesis
    by (simp add: main_depth_Some [OF Some] trace_emit isFirstWrite_emit exports_append)
  qed
qed

lemma main_nobjnm_exports:
  "isFirstWrite (snd (main_nobjnm (Options a) fs)) =
     (\<forall>x \<in> set (exports (trace (snd (main_nobjnm (Options a) fs)))). \<not> snd (snd x)) \<and>
   (\<forall>pre x post. exports (trace (snd (main_nobjnm (Options a) fs))) = pre @ x # post \<longrightarrow>
      fst x = n_outputDir a \<and>
      (\<exists>q. fst (snd x) = nobjnm_opts (\<forall>y \<in> set pre. \<not> snd (snd y)) q (n_outputName a)))"
proof (cases "prepare_output (n_outputDir a) fs")
  case (Pair es ok)
  have e0: "exports es = []" using exports_prepare_output [of "n_outputDir a" fs] Pair by simp
  show ?thesis
  proof (cases ok)
    case False
    then show ?thesis using Pair e0 by (simp add: main_nobjnm_None)
  next
    case True
    then have Some: "prepare_output (n_outputDir a) fs = (es, True)" using Pair by simp
  let ?st0 = "\<lparr>isFirstWrite = True, trace = es\<rparr>"
  have "isFirstWrite (fold (nobjnm_file a) (directory fs) ?st0) =
          (\<forall>x \<in> set (exports (trace (fold (nobjnm_file a) (directory fs) ?st0))). \<not> snd (snd x)) \<and>
        (\<forall>pre x post.
            exports (trace (fold (nobjnm_file a) (directory fs) ?st0)) = pre @ x # post \<longrightarrow>
            fst x = n_outputDir a \<and>
            (\<exists>q. fst (snd x) = nobjnm_opts (\<forall>y \<in> set pre. \<not> snd (snd y)) q (n_outputName a)))"
    by (rule fold_exports [where X = "nobjnm_export a"])
       (simp_all add: exports_nobjnm_file flag_nobjnm_file nobjnm_export_shape e0)
  then show ?thesis
    by (simp add: main_nobjnm_Some [OF Some] trace_emit isFirstWrite_emit exports_append)
  qed
qed




lemma example_depth_exports:
  "exports (trace (snd (main_depth (Options example_depth_args) example_fs))) =
     [(''out'', depth_opts True example_depth_query ''depth'', False),
      (''out'', depth_opts True example_depth_query ''depth'', True),
      (''out'', depth_opts False example_depth_query ''depth'', True)]"
  by code_simp



subsection \<open>Geometry\<close>

lemma depth_rule_prefix:
  "n = ''LNDARE'' \<or> map_of depth_map n \<noteq> None \<Longrightarrow>
   prefix ''SELECT ST_MakeValid(ST_SimplifyPreserveTopology(geometry, 0.00025)) AS WKT, '' (depth_rule n)"
  by (auto simp add: depth_rule_def land_fragment_def depth_fragment_def)

lemma nobjnm_fragment_prefix:
  "prefix ''SELECT ST_MakeValid(ST_SimplifyPreserveTopology(geometry, 0.00025)) AS WKT, ''
     (nobjnm_fragment level n f)"
  by (simp add: nobjnm_fragment_def)

lemma depth_opts_shape:
  "depth_opts first q n =
     [''-f'', ''CSV'', ''-dialect'', ''SQLite''] @ (if first then [] else [''-append'']) @
     [''-sql'', q, ''-nln'', n, ''-lco'', ''GEOMETRY=AS_WKT'', ''-dim'', ''2'']"
  by (simp add: depth_opts_def)

lemma nobjnm_opts_shape:
  "nobjnm_opts first q n =
     [''-f'', ''CSV'', ''-dialect'', ''SQLite''] @ (if first then [] else [''-append'']) @
     [''-sql'', q, ''-nln'', n, ''-lco'', ''GEOMETRY=AS_WKT'']"
  by (simp add: nobjnm_opts_def)

text \<open>
  Claim C9, as the code has it. Every fragment selects the repaired and simplified geometry
  under the name \<open>WKT\<close>, and every export asks for \<open>-lco GEOMETRY=AS_WKT\<close>. The request
  for two dimensions does not come from a layer: every export of the depth tool ends with
  \<open>-dim 2\<close>, whatever layers the file has, and the options of the generic tool end with
  the \<open>-lco\<close> pair and hold no \<open>-dim\<close>.
\<close>

theorem wkt_geometry:
  "(\<forall>frag \<in> set (fst (layer_loop (depth_layer poDS) all_target_layers)).
      prefix ''SELECT ST_MakeValid(ST_SimplifyPreserveTopology(geometry, 0.00025)) AS WKT, '' frag) \<and>
   (\<forall>frag \<in> set (fst (layer_loop (nobjnm_layer level f poDS) layers)).
      prefix ''SELECT ST_MakeValid(ST_SimplifyPreserveTopology(geometry, 0.00025)) AS WKT, '' frag) \<and>
   (\<forall>x \<in> set (exports (trace (snd (main_depth (Options a) fs)))).
      \<exists>first q. fst (snd x) =
        [''-f'', ''CSV'', ''-dialect'', ''SQLite''] @ (if first then [] else [''-append'']) @
        [''-sql'', q, ''-nln'', d_outputName a, ''-lco'', ''GEOMETRY=AS_WKT'', ''-dim'', ''2'']) \<and>
   (\<forall>x \<in> set (exports (trace (snd (main_nobjnm (Options b) fs)))).
      \<exists>first q. fst (snd x) =
        [''-f'', ''CSV'', ''-dialect'', ''SQLite''] @ (if first then [] else [''-append'']) @
        [''-sql'', q, ''-nln'', n_outputName b, ''-lco'', ''GEOMETRY=AS_WKT''])"
proof (intro conjI ballI)
  fix frag
  assume "frag \<in> set (fst (layer_loop (depth_layer poDS) all_target_layers))"
  then obtain n where "n = ''LNDARE'' \<or> map_of depth_map n \<noteq> None" "frag = depth_rule n"
    using loop_filter [of all_target_layers "depth_layer poDS", OF depth_layer_fst] by auto
  then show "prefix ''SELECT ST_MakeValid(ST_SimplifyPreserveTopology(geometry, 0.00025)) AS WKT, '' frag"
    using depth_rule_prefix by blast
next
  fix frag
  assume "frag \<in> set (fst (layer_loop (nobjnm_layer level f poDS) layers))"
  then obtain n where "frag = nobjnm_fragment level n f"
    by (auto simp add: nobjnm_parts)
  then show "prefix ''SELECT ST_MakeValid(ST_SimplifyPreserveTopology(geometry, 0.00025)) AS WKT, '' frag"
    using nobjnm_fragment_prefix by blast
next
  fix x
  assume "x \<in> set (exports (trace (snd (main_depth (Options a) fs))))"
  then obtain pre post where "exports (trace (snd (main_depth (Options a) fs))) = pre @ x # post"
    by (auto simp add: in_set_conv_decomp)
  then obtain q where "fst (snd x) = depth_opts (\<forall>y \<in> set pre. \<not> snd (snd y)) q (d_outputName a)"
    using main_depth_exports [of a fs] by blast
  then have "fst (snd x) =
        [''-f'', ''CSV'', ''-dialect'', ''SQLite''] @
        (if (\<forall>y \<in> set pre. \<not> snd (snd y)) then [] else [''-append'']) @
        [''-sql'', q, ''-nln'', d_outputName a, ''-lco'', ''GEOMETRY=AS_WKT'', ''-dim'', ''2'']"
    by (simp only: depth_opts_shape)
  then show "\<exists>first q. fst (snd x) =
        [''-f'', ''CSV'', ''-dialect'', ''SQLite''] @ (if first then [] else [''-append'']) @
        [''-sql'', q, ''-nln'', d_outputName a, ''-lco'', ''GEOMETRY=AS_WKT'', ''-dim'', ''2'']"
    by (intro exI)
next
  fix x
  assume "x \<in> set (exports (trace (snd (main_nobjnm (Options b) fs))))"
  then obtain pre post where "exports (trace (snd (main_nobjnm (Options b) fs))) = pre @ x # post"
    by (auto simp add: in_set_conv_decomp)
  then obtain q where "fst (snd x) = nobjnm_opts (\<forall>y \<in> set pre. \<not> snd (snd y)) q (n_outputName b)"
    using main_nobjnm_exports [of b fs] by blast
  then have "fst (snd x) =
        [''-f'', ''CSV'', ''-dialect'', ''SQLite''] @
        (if (\<forall>y \<in> set pre. \<not> snd (snd y)) then [] else [''-append'']) @
        [''-sql'', q, ''-nln'', n_outputName b, ''-lco'', ''GEOMETRY=AS_WKT'']"
    by (simp only: nobjnm_opts_shape)
  then show "\<exists>first q. fst (snd x) =
        [''-f'', ''CSV'', ''-dialect'', ''SQLite''] @ (if first then [] else [''-append'']) @
        [''-sql'', q, ''-nln'', n_outputName b, ''-lco'', ''GEOMETRY=AS_WKT'']"
    by (intro exI)
qed

theorem wkt_geometry_witness:
  "depth_fragment ''SOUNDG'' ''DEPTH'' \<in> set (fst (layer_loop (depth_layer example_chart) all_target_layers)) \<and>
   prefix ''SELECT ST_MakeValid(ST_SimplifyPreserveTopology(geometry, 0.00025)) AS WKT, ''
     (depth_fragment ''SOUNDG'' ''DEPTH'') \<and>
   (''out'', depth_opts False example_depth_query ''depth'', True) \<in>
     set (exports (trace (snd (main_depth (Options example_depth_args) example_fs)))) \<and>
   (\<exists>first q. depth_opts False example_depth_query ''depth'' =
        [''-f'', ''CSV'', ''-dialect'', ''SQLite''] @ (if first then [] else [''-append'']) @
        [''-sql'', q, ''-nln'', d_outputName example_depth_args, ''-lco'', ''GEOMETRY=AS_WKT'', ''-dim'', ''2''])"
proof -
  note t = wkt_geometry [of example_chart "CHR ''5''" "''NOBJNM''" "[]" example_depth_args example_fs
      example_nobjnm_args]
  have m: "depth_fragment ''SOUNDG'' ''DEPTH'' \<in> set (fst (layer_loop (depth_layer example_chart) all_target_layers))"
    by (simp only: example_depth_parts) simp
  have x: "(''out'', depth_opts False example_depth_query ''depth'', True) \<in>
     set (exports (trace (snd (main_depth (Options example_depth_args) example_fs))))"
    by (simp only: example_depth_exports) simp
  from t m have a: "prefix ''SELECT ST_MakeValid(ST_SimplifyPreserveTopology(geometry, 0.00025)) AS WKT, ''
     (depth_fragment ''SOUNDG'' ''DEPTH'')"
    by blast
  from t x have b: "\<exists>first q. fst (snd (''out'', depth_opts False example_depth_query ''depth'', True)) =
        [''-f'', ''CSV'', ''-dialect'', ''SQLite''] @ (if first then [] else [''-append'']) @
        [''-sql'', q, ''-nln'', d_outputName example_depth_args, ''-lco'', ''GEOMETRY=AS_WKT'', ''-dim'', ''2'']"
    by blast
  from m a x b show ?thesis by (simp only: fst_conv snd_conv simp_thms)
qed

text \<open>
  Against the claim as written: a file with only \<open>DEPARE\<close> and a file with only \<open>LNDARE\<close>
  both get \<open>-dim 2\<close> from the depth tool, and the generic tool gives a file with \<open>LNDARE\<close> no
  \<open>-dim\<close> at all, so no layer is the one that asks for it.
\<close>

theorem dim_not_per_layer:
  "exports (trace (depth_file ''out'' ''depth''
      (example_entry ''in'' ''US5AA01M'' (Some (example_cell [(''DEPARE'', [''DRVAL1''])])) True)
      \<lparr>isFirstWrite = True, trace = []\<rparr>)) =
     [(''out'',
       [''-f'', ''CSV'', ''-dialect'', ''SQLite'', ''-sql'', depth_fragment ''DEPARE'' ''DRVAL1'',
        ''-nln'', ''depth'', ''-lco'', ''GEOMETRY=AS_WKT'', ''-dim'', ''2''],
       True)] \<and>
   exports (trace (depth_file ''out'' ''depth''
      (example_entry ''in'' ''US5AA01M'' (Some (example_cell [(''LNDARE'', [''NOBJNM''])])) True)
      \<lparr>isFirstWrite = True, trace = []\<rparr>)) =
     [(''out'',
       [''-f'', ''CSV'', ''-dialect'', ''SQLite'', ''-sql'', land_fragment ''LNDARE'',
        ''-nln'', ''depth'', ''-lco'', ''GEOMETRY=AS_WKT'', ''-dim'', ''2''],
       True)] \<and>
   exports (trace (nobjnm_file example_nobjnm_args
      (example_entry ''in'' ''US5AA01M'' (Some (example_cell [(''LNDARE'', [''NOBJNM''])])) True)
      \<lparr>isFirstWrite = True, trace = []\<rparr>)) =
     [(''out'',
       [''-f'', ''CSV'', ''-dialect'', ''SQLite'', ''-sql'', nobjnm_fragment (CHR ''5'') ''LNDARE'' ''NOBJNM'',
        ''-nln'', ''nobjnm'', ''-lco'', ''GEOMETRY=AS_WKT''],
       True)]"
  by code_simp

subsection \<open>The trace of a whole run\<close>

lemma removals_depth_loop: "removals (snd (layer_loop (depth_layer poDS) ls)) = []"
  by (simp add: snd_layer_loop removals_concat_Nil depth_layer_def split: option.split)

lemma removals_nobjnm_loop: "removals (snd (layer_loop (nobjnm_layer lv f poDS) ls)) = []"
  by (simp add: snd_layer_loop removals_concat_Nil nobjnm_layer_def split: option.split)

lemma depth_file_trace:
  "\<exists>ev. trace (depth_file d n e st) = trace st @ ev \<and> removals ev = []"
  by (cases "GDALOpenEx e")
     (simp_all add: depth_file_def Let_def trace_emit isFirstWrite_emit removals_append removals_depth_loop)

lemma nobjnm_file_trace:
  "\<exists>ev. trace (nobjnm_file a e st) = trace st @ ev \<and> removals ev = []"
  by (cases "GDALOpenEx e")
     (simp_all add: nobjnm_file_def Let_def trace_emit isFirstWrite_emit removals_append removals_nobjnm_loop)

lemma fold_trace:
  assumes "\<And>e st. \<exists>ev. trace (f e st) = trace st @ ev \<and> removals ev = []"
  shows "\<exists>ev. trace (fold f es st) = trace st @ ev \<and> removals ev = []"
proof (induction es arbitrary: st)
  case Nil
  show ?case by simp
next
  case (Cons e es)
  obtain ev1 where 1: "trace (f e st) = trace st @ ev1" "removals ev1 = []"
    using assms by blast
  obtain ev2 where 2: "trace (fold f es (f e st)) = trace (f e st) @ ev2" "removals ev2 = []"
    using Cons.IH by blast
  have "trace (fold f (e # es) st) = trace st @ (ev1 @ ev2)" "removals (ev1 @ ev2) = []"
    using 1 2 by (simp_all add: removals_append)
  then show ?case by blast
qed

lemma fold_member:
  assumes step: "\<And>e st. \<exists>ev. trace (f e st) = trace st @ ev \<and> removals ev = []"
    and hit: "\<And>st. x \<in> set (trace (f e st))"
    and mem: "e \<in> set es"
  shows "x \<in> set (trace (fold f es st))"
  using mem
proof (induction es arbitrary: st)
  case Nil
  then show ?case by simp
next
  case (Cons e' es)
  show ?case
  proof (cases "e = e'")
    case True
    obtain ev where "trace (fold f es (f e st)) = trace (f e st) @ ev"
      using fold_trace [of f es "f e st", OF step] by blast
    then show ?thesis using hit [of st] True by simp
  next
    case False
    then show ?thesis using Cons by simp
  qed
qed

lemma prepare_output_cases:
  "prepare_output d fs =
     (if fs_exists fs = Some True then ([Cout (DeletedOldOutput d), RemoveAll d], fs_remove_all fs)
      else ([], fs_exists fs = Some False))"
  by (auto simp add: prepare_output_def split: option.split bool.split)

text \<open>
  Claim C5, as the code has it. When the output directory exists, the first thing a run
  does, before it opens or exports any file, is to delete it with \<open>fs::remove_all\<close>, once;
  when it does not exist nothing is deleted. The program never creates the directory: after
  the deletion the only calls on it are the exports, so it comes back only through an
  export.
\<close>

theorem output_reset:
  "(fs_exists fs = Some True \<and> fs_remove_all fs \<longrightarrow>
      (\<exists>rest. trace (snd (main_depth (Options a) fs)) =
                Cout (DeletedOldOutput (d_outputDir a)) # RemoveAll (d_outputDir a) # rest \<and>
              removals rest = []) \<and>
      (\<exists>rest. trace (snd (main_nobjnm (Options b) fs)) =
                Cout (DeletedOldOutput (n_outputDir b)) # RemoveAll (n_outputDir b) # rest \<and>
              removals rest = [])) \<and>
   (fs_exists fs = Some False \<longrightarrow>
      removals (trace (snd (main_depth (Options a) fs))) = [] \<and>
      removals (trace (snd (main_nobjnm (Options b) fs))) = [])"
proof (intro conjI impI; (elim conjE)?)
  assume h: "fs_exists fs = Some True" "fs_remove_all fs"
  have p: "prepare_output d fs = ([Cout (DeletedOldOutput d), RemoveAll d], True)" for d
    using h by (simp add: prepare_output_cases)
  obtain ev where ev: "trace (fold (depth_file (d_outputDir a) (d_outputName a)) (directory fs)
          \<lparr>isFirstWrite = True, trace = [Cout (DeletedOldOutput (d_outputDir a)), RemoveAll (d_outputDir a)]\<rparr>) =
        [Cout (DeletedOldOutput (d_outputDir a)), RemoveAll (d_outputDir a)] @ ev" "removals ev = []"
    using fold_trace [of "depth_file (d_outputDir a) (d_outputName a)" "directory fs" "\<lparr>isFirstWrite = True, trace = [Cout (DeletedOldOutput (d_outputDir a)), RemoveAll (d_outputDir a)]\<rparr>",
        OF depth_file_trace]
    by auto
  then show "\<exists>rest. trace (snd (main_depth (Options a) fs)) =
                Cout (DeletedOldOutput (d_outputDir a)) # RemoveAll (d_outputDir a) # rest \<and>
              removals rest = []"
    by (simp add: main_depth_Some [OF p] trace_emit removals_append)
  obtain ev' where ev': "trace (fold (nobjnm_file b) (directory fs)
          \<lparr>isFirstWrite = True, trace = [Cout (DeletedOldOutput (n_outputDir b)), RemoveAll (n_outputDir b)]\<rparr>) =
        [Cout (DeletedOldOutput (n_outputDir b)), RemoveAll (n_outputDir b)] @ ev'" "removals ev' = []"
    using fold_trace [of "nobjnm_file b" "directory fs" "\<lparr>isFirstWrite = True, trace = [Cout (DeletedOldOutput (n_outputDir b)), RemoveAll (n_outputDir b)]\<rparr>",
        OF nobjnm_file_trace]
    by auto
  then show "\<exists>rest. trace (snd (main_nobjnm (Options b) fs)) =
                Cout (DeletedOldOutput (n_outputDir b)) # RemoveAll (n_outputDir b) # rest \<and>
              removals rest = []"
    by (simp add: main_nobjnm_Some [OF p] trace_emit removals_append)
next
  assume h: "fs_exists fs = Some False"
  have p: "prepare_output d fs = ([], True)" for d
    using h by (simp add: prepare_output_cases)
  obtain ev where ev: "trace (fold (depth_file (d_outputDir a) (d_outputName a)) (directory fs)
          \<lparr>isFirstWrite = True, trace = []\<rparr>) = [] @ ev" "removals ev = []"
    using fold_trace [of "depth_file (d_outputDir a) (d_outputName a)" "directory fs" "\<lparr>isFirstWrite = True, trace = []\<rparr>",
        OF depth_file_trace]
    by auto
  then show "removals (trace (snd (main_depth (Options a) fs))) = []"
    by (simp add: main_depth_Some [OF p] trace_emit removals_append)
  obtain ev' where ev': "trace (fold (nobjnm_file b) (directory fs)
          \<lparr>isFirstWrite = True, trace = []\<rparr>) = [] @ ev'" "removals ev' = []"
    using fold_trace [of "nobjnm_file b" "directory fs" "\<lparr>isFirstWrite = True, trace = []\<rparr>",
        OF nobjnm_file_trace]
    by auto
  then show "removals (trace (snd (main_nobjnm (Options b) fs))) = []"
    by (simp add: main_nobjnm_Some [OF p] trace_emit removals_append)
qed

theorem output_reset_witness:
  "fs_exists example_fs = Some True \<and> fs_remove_all example_fs \<and>
   take 2 (trace (snd (main_depth (Options example_depth_args) example_fs))) =
     [Cout (DeletedOldOutput ''out''), RemoveAll ''out''] \<and>
   removals (trace (snd (main_depth (Options example_depth_args) example_fs))) = [''out''] \<and>
   removals (trace (snd (main_nobjnm (Options example_nobjnm_args) example_fs))) = [''out'']"
  using output_reset [of example_fs example_depth_args example_nobjnm_args]
  by (auto simp add: example_fs_def example_depth_args_def example_nobjnm_args_def)

text \<open>
  Against the claim as written: with an empty input directory the old output directory is
  deleted and the run ends without a single export, so nothing recreates it.
\<close>

theorem output_not_recreated:
  "main_depth (Options example_depth_args)
     \<lparr>fs_exists = Some True, fs_remove_all = True, directory = [], traversal_fails = False\<rparr> =
     (Exit 0, \<lparr>isFirstWrite = True,
               trace = [Cout (DeletedOldOutput ''out''), RemoveAll ''out'', Cout AllDone]\<rparr>) \<and>
   main_nobjnm (Options example_nobjnm_args)
     \<lparr>fs_exists = Some True, fs_remove_all = True, directory = [], traversal_fails = False\<rparr> =
     (Exit 0, \<lparr>isFirstWrite = True,
               trace = [Cout (DeletedOldOutput ''out''), RemoveAll ''out'', Cout AllDone]\<rparr>)"
  by (simp add: main_depth_def main_nobjnm_def prepare_output_def emit_def
      example_depth_args_def example_nobjnm_args_def)

subsection \<open>Exit codes and log lines\<close>

lemma prepare_output_directory: "prepare_output d (fs\<lparr>directory := es\<rparr>) = prepare_output d fs"
  by (simp add: prepare_output_def split: option.split bool.split)

lemma fst_main_depth:
  "fst (main_depth cmd fs) =
     (case cmd of
        StoreError \<Rightarrow> Exit 1
      | Help \<Rightarrow> Exit 0
      | NotifyError \<Rightarrow> Exit 1
      | Options a \<Rightarrow>
          if \<not> snd (prepare_output (d_outputDir a) fs) then Terminated
          else if traversal_fails fs then Exit 1 else Exit 0)"
  by (cases cmd) (auto simp add: main_depth_def Let_def split: prod.split bool.split)

lemma fst_main_nobjnm:
  "fst (main_nobjnm cmd fs) =
     (case cmd of
        StoreError \<Rightarrow> Exit 1
      | Help \<Rightarrow> Exit 0
      | NotifyError \<Rightarrow> Exit 1
      | Options a \<Rightarrow>
          if \<not> snd (prepare_output (n_outputDir a) fs) then Terminated
          else if traversal_fails fs then Exit 1 else Exit 0)"
  by (cases cmd) (auto simp add: main_nobjnm_def Let_def split: prod.split bool.split)

text \<open>
  Claim C6, as the code has it. A run returns the exit status of the process and nothing
  else, and that status does not depend on the files of the input directory: what happens to
  a file (exported, skipped, failed) is printed, not counted or returned. The only state of
  a run is the flag \<open>isFirstWrite\<close>.
\<close>

theorem exit_status_only:
  "fst (main_depth cmd (fs\<lparr>directory := es\<rparr>)) = fst (main_depth cmd fs) \<and>
   fst (main_nobjnm cmd' (fs\<lparr>directory := es\<rparr>)) = fst (main_nobjnm cmd' fs)"
  by (cases cmd; cases cmd'; simp add: fst_main_depth fst_main_nobjnm prepare_output_directory)

text \<open>
  Against the claim as written: a run over no file and a run over one file that does not
  open return the same value and end in the same flag; no count of files is in either.
\<close>

theorem no_report_counts:
  "main_depth (Options example_depth_args)
     \<lparr>fs_exists = Some False, fs_remove_all = True, directory = [], traversal_fails = False\<rparr> =
     (Exit 0, \<lparr>isFirstWrite = True, trace = [Cout AllDone]\<rparr>) \<and>
   main_depth (Options example_depth_args)
     \<lparr>fs_exists = Some False, fs_remove_all = True,
      directory = [example_entry ''in'' ''US5AA02M'' None True], traversal_fails = False\<rparr> =
     (Exit 0, \<lparr>isFirstWrite = True,
               trace = [Cout (Processing ''in/US5AA02M.000''),
                        Open ''in/US5AA02M.000'' [''SPLIT_MULTIPOINT=ON'', ''ADD_SOUNDG_DEPTH=ON''],
                        Cerr (WarnCannotOpen ''in/US5AA02M.000''),
                        Cout AllDone]\<rparr>)"
  by (simp add: main_depth_def prepare_output_def emit_def depth_file_def example_entry_def
      example_depth_args_def Let_def)

lemma depth_file_lines:
  assumes "extension e = ''.000''"
  shows "Cout (Processing (path_string e)) \<in> set (trace (depth_file d n e st))"
    and "GDALOpenEx e = None \<Longrightarrow> Cerr (WarnCannotOpen (path_string e)) \<in> set (trace (depth_file d n e st))"
    and "GDALOpenEx e = Some poDS \<Longrightarrow> fst (layer_loop (depth_layer poDS) all_target_layers) = [] \<Longrightarrow>
         Cout SkipNoLayer \<in> set (trace (depth_file d n e st))"
    and "GDALOpenEx e = Some poDS \<Longrightarrow> fst (layer_loop (depth_layer poDS) all_target_layers) \<noteq> [] \<Longrightarrow>
         \<not> GDALVectorTranslateOptionsNew e \<Longrightarrow> Cerr ErrOptionsNew \<in> set (trace (depth_file d n e st))"
    and "GDALOpenEx e = Some poDS \<Longrightarrow> fst (layer_loop (depth_layer poDS) all_target_layers) \<noteq> [] \<Longrightarrow>
         GDALVectorTranslateOptionsNew e \<Longrightarrow> \<not> GDALVectorTranslate e \<Longrightarrow>
         Cerr (ErrProcessing (path_string e)) \<in> set (trace (depth_file d n e st))"
  using assms
  by (cases "GDALOpenEx e"; simp add: depth_file_def Let_def trace_emit isFirstWrite_emit)+

lemma nobjnm_file_lines:
  assumes "extension e = ''.000''"
  shows "Cout (Processing (path_string e)) \<in> set (trace (nobjnm_file a e st))"
    and "GDALOpenEx e = None \<Longrightarrow> Cerr (WarnCannotOpen (path_string e)) \<in> set (trace (nobjnm_file a e st))"
    and "GDALOpenEx e = Some poDS \<Longrightarrow>
         fst (layer_loop (nobjnm_layer (level_of (filename e)) (n_filterField a) poDS) (n_targetLayers a)) = [] \<Longrightarrow>
         Cout SkipNoLayer \<in> set (trace (nobjnm_file a e st))"
    and "GDALOpenEx e = Some poDS \<Longrightarrow>
         fst (layer_loop (nobjnm_layer (level_of (filename e)) (n_filterField a) poDS) (n_targetLayers a)) \<noteq> [] \<Longrightarrow>
         \<not> GDALVectorTranslateOptionsNew e \<Longrightarrow> Cerr ErrOptionsNew \<in> set (trace (nobjnm_file a e st))"
    and "GDALOpenEx e = Some poDS \<Longrightarrow>
         fst (layer_loop (nobjnm_layer (level_of (filename e)) (n_filterField a) poDS) (n_targetLayers a)) \<noteq> [] \<Longrightarrow>
         GDALVectorTranslateOptionsNew e \<Longrightarrow> \<not> GDALVectorTranslate e \<Longrightarrow>
         Cerr (ErrProcessing (path_string e)) \<in> set (trace (nobjnm_file a e st))"
  using assms
  by (cases "GDALOpenEx e"; simp add: nobjnm_file_def Let_def trace_emit isFirstWrite_emit)+

lemma main_depth_member:
  assumes "snd (prepare_output (d_outputDir a) fs)" and "e \<in> set (directory fs)"
    and "\<And>st. x \<in> set (trace (depth_file (d_outputDir a) (d_outputName a) e st))"
  shows "x \<in> set (trace (snd (main_depth (Options a) fs)))"
proof -
  obtain es where p: "prepare_output (d_outputDir a) fs = (es, True)"
    using assms(1) by (cases "prepare_output (d_outputDir a) fs") simp
  have "x \<in> set (trace (fold (depth_file (d_outputDir a) (d_outputName a)) (directory fs)
                         \<lparr>isFirstWrite = True, trace = es\<rparr>))"
    by (rule fold_member [of "depth_file (d_outputDir a) (d_outputName a)" x e "directory fs",
          OF depth_file_trace assms(3) assms(2)])
  then show ?thesis by (simp add: main_depth_Some [OF p] trace_emit)
qed

lemma main_nobjnm_member:
  assumes "snd (prepare_output (n_outputDir a) fs)" and "e \<in> set (directory fs)"
    and "\<And>st. x \<in> set (trace (nobjnm_file a e st))"
  shows "x \<in> set (trace (snd (main_nobjnm (Options a) fs)))"
proof -
  obtain es where p: "prepare_output (n_outputDir a) fs = (es, True)"
    using assms(1) by (cases "prepare_output (n_outputDir a) fs") simp
  have "x \<in> set (trace (fold (nobjnm_file a) (directory fs) \<lparr>isFirstWrite = True, trace = es\<rparr>))"
    by (rule fold_member [of "nobjnm_file a" x e "directory fs", OF nobjnm_file_trace assms(3) assms(2)])
  then show ?thesis by (simp add: main_nobjnm_Some [OF p] trace_emit)
qed

lemma exit_1_depth:
  "(fst (main_depth cmd fs) = Exit 1) =
     (cmd = StoreError \<or> cmd = NotifyError \<or>
      (\<exists>a. cmd = Options a \<and> snd (prepare_output (d_outputDir a) fs) \<and> traversal_fails fs))"
  by (cases cmd) (simp_all add: fst_main_depth)

lemma exit_1_nobjnm:
  "(fst (main_nobjnm cmd fs) = Exit 1) =
     (cmd = StoreError \<or> cmd = NotifyError \<or>
      (\<exists>a. cmd = Options a \<and> snd (prepare_output (n_outputDir a) fs) \<and> traversal_fails fs))"
  by (cases cmd) (simp_all add: fst_main_nobjnm)

lemma main_depth_lines:
  assumes p: "snd (prepare_output (d_outputDir a) fs)" and e: "e \<in> set (directory fs)"
    and x: "extension e = ''.000''"
  shows "Cout (Processing (path_string e)) \<in> set (trace (snd (main_depth (Options a) fs))) \<and>
     (GDALOpenEx e = None \<longrightarrow>
        Cerr (WarnCannotOpen (path_string e)) \<in> set (trace (snd (main_depth (Options a) fs)))) \<and>
     (\<forall>poDS. GDALOpenEx e = Some poDS \<longrightarrow>
        (fst (layer_loop (depth_layer poDS) all_target_layers) = [] \<longrightarrow>
           Cout SkipNoLayer \<in> set (trace (snd (main_depth (Options a) fs)))) \<and>
        (fst (layer_loop (depth_layer poDS) all_target_layers) \<noteq> [] \<and> \<not> GDALVectorTranslateOptionsNew e \<longrightarrow>
           Cerr ErrOptionsNew \<in> set (trace (snd (main_depth (Options a) fs)))) \<and>
        (fst (layer_loop (depth_layer poDS) all_target_layers) \<noteq> [] \<and> GDALVectorTranslateOptionsNew e \<and>
         \<not> GDALVectorTranslate e \<longrightarrow>
           Cerr (ErrProcessing (path_string e)) \<in> set (trace (snd (main_depth (Options a) fs)))))"
  by (intro conjI impI allI; (elim conjE)?; rule main_depth_member [OF p e])
     (simp_all add: depth_file_lines [OF x])

lemma main_nobjnm_lines:
  assumes p: "snd (prepare_output (n_outputDir a) fs)" and e: "e \<in> set (directory fs)"
    and x: "extension e = ''.000''"
  shows "Cout (Processing (path_string e)) \<in> set (trace (snd (main_nobjnm (Options a) fs))) \<and>
     (GDALOpenEx e = None \<longrightarrow>
        Cerr (WarnCannotOpen (path_string e)) \<in> set (trace (snd (main_nobjnm (Options a) fs)))) \<and>
     (\<forall>poDS. GDALOpenEx e = Some poDS \<longrightarrow>
        (fst (layer_loop (nobjnm_layer (level_of (filename e)) (n_filterField a) poDS) (n_targetLayers a)) = [] \<longrightarrow>
           Cout SkipNoLayer \<in> set (trace (snd (main_nobjnm (Options a) fs)))) \<and>
        (fst (layer_loop (nobjnm_layer (level_of (filename e)) (n_filterField a) poDS) (n_targetLayers a)) \<noteq> [] \<and>
         \<not> GDALVectorTranslateOptionsNew e \<longrightarrow>
           Cerr ErrOptionsNew \<in> set (trace (snd (main_nobjnm (Options a) fs)))) \<and>
        (fst (layer_loop (nobjnm_layer (level_of (filename e)) (n_filterField a) poDS) (n_targetLayers a)) \<noteq> [] \<and>
         GDALVectorTranslateOptionsNew e \<and> \<not> GDALVectorTranslate e \<longrightarrow>
           Cerr (ErrProcessing (path_string e)) \<in> set (trace (snd (main_nobjnm (Options a) fs)))))"
  by (intro conjI impI allI; (elim conjE)?; rule main_nobjnm_member [OF p e])
     (simp_all add: nobjnm_file_lines [OF x])

text \<open>
  Claim C7. The exit code is 1 exactly when the command line is rejected or the traversal
  of the input directory fails, and 0 when the traversal completes; no file changes it.
  Every \<open>.000\<close> file the traversal yields is taken up, whatever happened to the files
  before it, and each per-file problem leaves its line in the log: the file does not open,
  no fragment was built, the options are refused, the export fails. Here
  \<open>snd (prepare_output dir fs)\<close> says that the run reached the traversal, that is, that
  neither \<open>fs::exists\<close> nor \<open>fs::remove_all\<close> threw before it.
\<close>

theorem per_file_errors:
  "(fst (main_depth cmd fs) = Exit 1) =
     (cmd = StoreError \<or> cmd = NotifyError \<or>
      (\<exists>a. cmd = Options a \<and> snd (prepare_output (d_outputDir a) fs) \<and> traversal_fails fs)) \<and>
   (fst (main_nobjnm cmd' fs) = Exit 1) =
     (cmd' = StoreError \<or> cmd' = NotifyError \<or>
      (\<exists>b. cmd' = Options b \<and> snd (prepare_output (n_outputDir b) fs) \<and> traversal_fails fs)) \<and>
   (snd (prepare_output (d_outputDir a) fs) \<and> \<not> traversal_fails fs \<longrightarrow>
      fst (main_depth (Options a) fs) = Exit 0) \<and>
   (snd (prepare_output (n_outputDir b) fs) \<and> \<not> traversal_fails fs \<longrightarrow>
      fst (main_nobjnm (Options b) fs) = Exit 0) \<and>
   (snd (prepare_output (d_outputDir a) fs) \<and> e \<in> set (directory fs) \<and> extension e = ''.000'' \<longrightarrow>
     Cout (Processing (path_string e)) \<in> set (trace (snd (main_depth (Options a) fs))) \<and>
     (GDALOpenEx e = None \<longrightarrow>
        Cerr (WarnCannotOpen (path_string e)) \<in> set (trace (snd (main_depth (Options a) fs)))) \<and>
     (\<forall>poDS. GDALOpenEx e = Some poDS \<longrightarrow>
        (fst (layer_loop (depth_layer poDS) all_target_layers) = [] \<longrightarrow>
           Cout SkipNoLayer \<in> set (trace (snd (main_depth (Options a) fs)))) \<and>
        (fst (layer_loop (depth_layer poDS) all_target_layers) \<noteq> [] \<and> \<not> GDALVectorTranslateOptionsNew e \<longrightarrow>
           Cerr ErrOptionsNew \<in> set (trace (snd (main_depth (Options a) fs)))) \<and>
        (fst (layer_loop (depth_layer poDS) all_target_layers) \<noteq> [] \<and> GDALVectorTranslateOptionsNew e \<and>
         \<not> GDALVectorTranslate e \<longrightarrow>
           Cerr (ErrProcessing (path_string e)) \<in> set (trace (snd (main_depth (Options a) fs)))))) \<and>
   (snd (prepare_output (n_outputDir b) fs) \<and> e \<in> set (directory fs) \<and> extension e = ''.000'' \<longrightarrow>
     Cout (Processing (path_string e)) \<in> set (trace (snd (main_nobjnm (Options b) fs))) \<and>
     (GDALOpenEx e = None \<longrightarrow>
        Cerr (WarnCannotOpen (path_string e)) \<in> set (trace (snd (main_nobjnm (Options b) fs)))) \<and>
     (\<forall>poDS. GDALOpenEx e = Some poDS \<longrightarrow>
        (fst (layer_loop (nobjnm_layer (level_of (filename e)) (n_filterField b) poDS) (n_targetLayers b)) = [] \<longrightarrow>
           Cout SkipNoLayer \<in> set (trace (snd (main_nobjnm (Options b) fs)))) \<and>
        (fst (layer_loop (nobjnm_layer (level_of (filename e)) (n_filterField b) poDS) (n_targetLayers b)) \<noteq> [] \<and>
         \<not> GDALVectorTranslateOptionsNew e \<longrightarrow>
           Cerr ErrOptionsNew \<in> set (trace (snd (main_nobjnm (Options b) fs)))) \<and>
        (fst (layer_loop (nobjnm_layer (level_of (filename e)) (n_filterField b) poDS) (n_targetLayers b)) \<noteq> [] \<and>
         GDALVectorTranslateOptionsNew e \<and> \<not> GDALVectorTranslate e \<longrightarrow>
           Cerr (ErrProcessing (path_string e)) \<in> set (trace (snd (main_nobjnm (Options b) fs))))))"
proof -
  have d0: "snd (prepare_output (d_outputDir a) fs) \<and> \<not> traversal_fails fs \<longrightarrow>
      fst (main_depth (Options a) fs) = Exit 0"
    by (simp add: fst_main_depth)
  have n0: "snd (prepare_output (n_outputDir b) fs) \<and> \<not> traversal_fails fs \<longrightarrow>
      fst (main_nobjnm (Options b) fs) = Exit 0"
    by (simp add: fst_main_nobjnm)
  show ?thesis
  proof (intro conjI)
    show "snd (prepare_output (d_outputDir a) fs) \<and> e \<in> set (directory fs) \<and> extension e = ''.000'' \<longrightarrow>
     Cout (Processing (path_string e)) \<in> set (trace (snd (main_depth (Options a) fs))) \<and>
     (GDALOpenEx e = None \<longrightarrow>
        Cerr (WarnCannotOpen (path_string e)) \<in> set (trace (snd (main_depth (Options a) fs)))) \<and>
     (\<forall>poDS. GDALOpenEx e = Some poDS \<longrightarrow>
        (fst (layer_loop (depth_layer poDS) all_target_layers) = [] \<longrightarrow>
           Cout SkipNoLayer \<in> set (trace (snd (main_depth (Options a) fs)))) \<and>
        (fst (layer_loop (depth_layer poDS) all_target_layers) \<noteq> [] \<and> \<not> GDALVectorTranslateOptionsNew e \<longrightarrow>
           Cerr ErrOptionsNew \<in> set (trace (snd (main_depth (Options a) fs)))) \<and>
        (fst (layer_loop (depth_layer poDS) all_target_layers) \<noteq> [] \<and> GDALVectorTranslateOptionsNew e \<and>
         \<not> GDALVectorTranslate e \<longrightarrow>
           Cerr (ErrProcessing (path_string e)) \<in> set (trace (snd (main_depth (Options a) fs)))))"
      by (intro impI, elim conjE, rule main_depth_lines)
    show "snd (prepare_output (n_outputDir b) fs) \<and> e \<in> set (directory fs) \<and> extension e = ''.000'' \<longrightarrow>
     Cout (Processing (path_string e)) \<in> set (trace (snd (main_nobjnm (Options b) fs))) \<and>
     (GDALOpenEx e = None \<longrightarrow>
        Cerr (WarnCannotOpen (path_string e)) \<in> set (trace (snd (main_nobjnm (Options b) fs)))) \<and>
     (\<forall>poDS. GDALOpenEx e = Some poDS \<longrightarrow>
        (fst (layer_loop (nobjnm_layer (level_of (filename e)) (n_filterField b) poDS) (n_targetLayers b)) = [] \<longrightarrow>
           Cout SkipNoLayer \<in> set (trace (snd (main_nobjnm (Options b) fs)))) \<and>
        (fst (layer_loop (nobjnm_layer (level_of (filename e)) (n_filterField b) poDS) (n_targetLayers b)) \<noteq> [] \<and>
         \<not> GDALVectorTranslateOptionsNew e \<longrightarrow>
           Cerr ErrOptionsNew \<in> set (trace (snd (main_nobjnm (Options b) fs)))) \<and>
        (fst (layer_loop (nobjnm_layer (level_of (filename e)) (n_filterField b) poDS) (n_targetLayers b)) \<noteq> [] \<and>
         GDALVectorTranslateOptionsNew e \<and> \<not> GDALVectorTranslate e \<longrightarrow>
           Cerr (ErrProcessing (path_string e)) \<in> set (trace (snd (main_nobjnm (Options b) fs)))))"
      by (intro impI, elim conjE, rule main_nobjnm_lines)
  qed (rule exit_1_depth exit_1_nobjnm d0 n0)+
qed

theorem per_file_errors_witness:
  "snd (prepare_output (d_outputDir example_depth_args) example_fs) \<and>
   \<not> traversal_fails example_fs \<and>
   example_entry ''in'' ''US5AA02M'' None True \<in> set (directory example_fs) \<and>
   extension (example_entry ''in'' ''US5AA02M'' None True) = ''.000'' \<and>
   GDALOpenEx (example_entry ''in'' ''US5AA02M'' None True) = None \<and>
   fst (main_depth (Options example_depth_args) example_fs) = Exit 0 \<and>
   Cout (Processing ''in/US5AA02M.000'') \<in> set (trace (snd (main_depth (Options example_depth_args) example_fs))) \<and>
   Cerr (WarnCannotOpen ''in/US5AA02M.000'') \<in> set (trace (snd (main_depth (Options example_depth_args) example_fs)))"
proof -
  have h: "snd (prepare_output (d_outputDir example_depth_args) example_fs)"
    "\<not> traversal_fails example_fs"
    "example_entry ''in'' ''US5AA02M'' None True \<in> set (directory example_fs)"
    "extension (example_entry ''in'' ''US5AA02M'' None True) = ''.000''"
    "GDALOpenEx (example_entry ''in'' ''US5AA02M'' None True) = None"
    "path_string (example_entry ''in'' ''US5AA02M'' None True) = ''in/US5AA02M.000''"
    by (simp_all add: example_fs_def prepare_output_def example_entry_def)
  show ?thesis
    using per_file_errors [of "Options example_depth_args" example_fs "Options example_nobjnm_args"
        example_depth_args example_nobjnm_args "example_entry ''in'' ''US5AA02M'' None True"] h
    by (simp only: simp_thms)
qed

subsection \<open>The field check\<close>

lemma depth_layer_present:
  "GetLayerByName poDS n = Some l \<Longrightarrow> n \<in> set all_target_layers \<Longrightarrow> fst (depth_layer poDS n) = [depth_rule n]"
  using targets_have_rule by (simp add: depth_layer_fst)

text \<open>
  Claim C1, as the code has it. The generic tool checks the filter field in the schema of
  every requested layer that is present: a fragment is built exactly for the layers that
  have the field, and a layer without it is skipped with a line on standard output. The
  depth tool makes no such check: every target layer that is present gets its fragment,
  whatever fields it has.
\<close>

theorem field_check:
  "(frag \<in> set (fst (layer_loop (nobjnm_layer level f poDS) layers))) =
     (\<exists>n \<in> set layers. \<exists>l. GetLayerByName poDS n = Some l \<and> GetFieldIndex l f \<noteq> - 1 \<and>
        frag = nobjnm_fragment level n f) \<and>
   (GetLayerByName poDS n = Some l \<and> GetFieldIndex l f = - 1 \<longrightarrow>
      nobjnm_layer level f poDS n = ([], [Cout (FoundLayerWithoutField n f)])) \<and>
   (GetLayerByName poDS n = Some l \<and> n \<in> set all_target_layers \<longrightarrow>
      fst (depth_layer poDS n) \<noteq> [])"
proof (intro conjI impI; (elim conjE)?)
  show "(frag \<in> set (fst (layer_loop (nobjnm_layer level f poDS) layers))) =
     (\<exists>n \<in> set layers. \<exists>l. GetLayerByName poDS n = Some l \<and> GetFieldIndex l f \<noteq> - 1 \<and>
        frag = nobjnm_fragment level n f)"
    by (auto simp add: nobjnm_parts)
next
  assume "GetLayerByName poDS n = Some l" "GetFieldIndex l f = - 1"
  then show "nobjnm_layer level f poDS n = ([], [Cout (FoundLayerWithoutField n f)])"
    by (simp add: nobjnm_layer_def)
next
  assume "GetLayerByName poDS n = Some l" "n \<in> set all_target_layers"
  then show "fst (depth_layer poDS n) \<noteq> []"
    by (simp add: depth_layer_present)
qed

theorem field_check_witness:
  "GetLayerByName example_chart ''DEPARE'' = Some (example_layer [''DRVAL1'']) \<and>
   GetFieldIndex (example_layer [''DRVAL1'']) ''NOBJNM'' = - 1 \<and>
   ''DEPARE'' \<in> set all_target_layers \<and>
   nobjnm_layer (CHR ''5'') ''NOBJNM'' example_chart ''DEPARE'' =
     ([], [Cout (FoundLayerWithoutField ''DEPARE'' ''NOBJNM'')]) \<and>
   fst (depth_layer example_chart ''DEPARE'') \<noteq> []"
  using field_check [of "[]" "CHR ''5''" "''NOBJNM''" example_chart "[]" "''DEPARE''" "example_layer [''DRVAL1'']"]
  by (simp add: example_chart_layers example_layer_fields all_target_layers_eq)

lemma depare_selects_field:
  "sublist (''CAST('' @ [dq] @ ''DRVAL1'' @ [dq] @ '' AS REAL) AS DEPTH'') (depth_fragment ''DEPARE'' ''DRVAL1'')"
  by code_simp

lemma depare_only_exports:
  "exports (trace (snd (main_depth (Options example_depth_args)
      \<lparr>fs_exists = Some False, fs_remove_all = True,
       directory = [example_entry ''in'' ''US5AA01M'' (Some (example_cell [(''DEPARE'', [])])) True],
       traversal_fails = False\<rparr>))) =
     [(''out'', depth_opts True (depth_fragment ''DEPARE'' ''DRVAL1'') ''depth'', True)]"
  by code_simp

text \<open>
  Against the claim as written: a file whose \<open>DEPARE\<close> layer has no field \<open>DRVAL1\<close>. The
  depth tool exports it with a query that selects and filters on \<open>"DRVAL1"\<close>.
\<close>

theorem field_check_missing_depth:
  "GetLayerByName (example_cell [(''DEPARE'', [])]) ''DEPARE'' = Some (example_layer []) \<and>
   GetFieldIndex (example_layer []) ''DRVAL1'' = - 1 \<and>
   exports (trace (snd (main_depth (Options example_depth_args)
      \<lparr>fs_exists = Some False, fs_remove_all = True,
       directory = [example_entry ''in'' ''US5AA01M'' (Some (example_cell [(''DEPARE'', [])])) True],
       traversal_fails = False\<rparr>))) =
     [(''out'', depth_opts True (depth_fragment ''DEPARE'' ''DRVAL1'') ''depth'', True)] \<and>
   sublist (''CAST('' @ [dq] @ ''DRVAL1'' @ [dq] @ '' AS REAL) AS DEPTH'') (depth_fragment ''DEPARE'' ''DRVAL1'')"
  using depare_selects_field depare_only_exports
  by (simp add: example_cell_def example_layer_def)

subsection \<open>The queries handed to the export\<close>

lemma fold_exports_origin:
  assumes ex: "\<And>e st. exports (trace (f e st)) = exports (trace st) @ X e (isFirstWrite st)"
  shows "x \<in> set (exports (trace (fold f es st))) \<Longrightarrow>
         x \<in> set (exports (trace st)) \<or> (\<exists>e \<in> set es. \<exists>b. x \<in> set (X e b))"
proof (induction es arbitrary: st)
  case Nil
  then show ?case by simp
next
  case (Cons e es)
  from Cons.prems have "x \<in> set (exports (trace (fold f es (f e st))))" by simp
  then have "x \<in> set (exports (trace (f e st))) \<or> (\<exists>e \<in> set es. \<exists>b. x \<in> set (X e b))"
    by (rule Cons.IH)
  then show ?case by (auto simp add: ex)
qed

lemma fold_exports_mono:
  assumes ex: "\<And>e st. exports (trace (f e st)) = exports (trace st) @ X e (isFirstWrite st)"
  shows "set (exports (trace st)) \<subseteq> set (exports (trace (fold f es st)))"
proof (induction es arbitrary: st)
  case Nil
  show ?case by simp
next
  case (Cons e es)
  have "set (exports (trace st)) \<subseteq> set (exports (trace (f e st)))" by (simp add: ex)
  also have "\<dots> \<subseteq> set (exports (trace (fold f es (f e st))))" by (rule Cons.IH)
  finally show ?case by simp
qed

lemma fold_exports_issued:
  assumes ex: "\<And>e st. exports (trace (f e st)) = exports (trace st) @ X e (isFirstWrite st)"
    and one: "\<And>b. X e b = [x b]"
    and mem: "e \<in> set es"
  shows "\<exists>b. x b \<in> set (exports (trace (fold f es st)))"
  using mem
proof (induction es arbitrary: st)
  case Nil
  then show ?case by simp
next
  case (Cons e' es)
  show ?case
  proof (cases "e = e'")
    case True
    have "x (isFirstWrite st) \<in> set (exports (trace (f e st)))" by (simp add: ex one)
    then have "x (isFirstWrite st) \<in> set (exports (trace (fold f es (f e st))))"
      using fold_exports_mono [of f X "f e st" es, OF ex] by blast
    then show ?thesis using True by auto
  next
    case False
    then have "e \<in> set es" using Cons.prems by simp
    then have "\<exists>b. x b \<in> set (exports (trace (fold f es (f e' st))))" by (rule Cons.IH)
    then show ?thesis by simp
  qed
qed

lemma main_depth_trace:
  "snd (prepare_output (d_outputDir a) fs) \<Longrightarrow>
   exports (trace (snd (main_depth (Options a) fs))) =
     exports (trace (fold (depth_file (d_outputDir a) (d_outputName a)) (directory fs)
                       \<lparr>isFirstWrite = True, trace = fst (prepare_output (d_outputDir a) fs)\<rparr>))"
  by (cases "prepare_output (d_outputDir a) fs")
     (simp add: main_depth_Some trace_emit exports_append)

lemma main_nobjnm_trace:
  "snd (prepare_output (n_outputDir a) fs) \<Longrightarrow>
   exports (trace (snd (main_nobjnm (Options a) fs))) =
     exports (trace (fold (nobjnm_file a) (directory fs)
                       \<lparr>isFirstWrite = True, trace = fst (prepare_output (n_outputDir a) fs)\<rparr>))"
  by (cases "prepare_output (n_outputDir a) fs")
     (simp add: main_nobjnm_Some trace_emit exports_append)

lemma main_depth_stopped:
  "\<not> snd (prepare_output (d_outputDir a) fs) \<Longrightarrow> exports (trace (snd (main_depth (Options a) fs))) = []"
  using exports_prepare_output [of "d_outputDir a" fs]
  by (cases "prepare_output (d_outputDir a) fs") (simp add: main_depth_None)

lemma main_nobjnm_stopped:
  "\<not> snd (prepare_output (n_outputDir a) fs) \<Longrightarrow> exports (trace (snd (main_nobjnm (Options a) fs))) = []"
  using exports_prepare_output [of "n_outputDir a" fs]
  by (cases "prepare_output (n_outputDir a) fs") (simp add: main_nobjnm_None)

lemma main_depth_export_origin:
  assumes "x \<in> set (exports (trace (snd (main_depth (Options a) fs))))"
  shows "\<exists>e \<in> set (directory fs). \<exists>b. x \<in> set (depth_export (d_outputDir a) (d_outputName a) e b)"
proof (cases "snd (prepare_output (d_outputDir a) fs)")
  case False
  then show ?thesis using assms by (simp add: main_depth_stopped)
next
  case True
  have "x \<in> set (exports (trace \<lparr>isFirstWrite = True, trace = fst (prepare_output (d_outputDir a) fs)\<rparr>)) \<or>
        (\<exists>e \<in> set (directory fs). \<exists>b. x \<in> set (depth_export (d_outputDir a) (d_outputName a) e b))"
    using assms
    by (intro fold_exports_origin [of "depth_file (d_outputDir a) (d_outputName a)"])
       (simp_all add: exports_depth_file main_depth_trace [OF True])
  then show ?thesis by (simp add: exports_prepare_output)
qed

lemma main_nobjnm_export_origin:
  assumes "x \<in> set (exports (trace (snd (main_nobjnm (Options a) fs))))"
  shows "\<exists>e \<in> set (directory fs). \<exists>b. x \<in> set (nobjnm_export a e b)"
proof (cases "snd (prepare_output (n_outputDir a) fs)")
  case False
  then show ?thesis using assms by (simp add: main_nobjnm_stopped)
next
  case True
  have "x \<in> set (exports (trace \<lparr>isFirstWrite = True, trace = fst (prepare_output (n_outputDir a) fs)\<rparr>)) \<or>
        (\<exists>e \<in> set (directory fs). \<exists>b. x \<in> set (nobjnm_export a e b))"
    using assms
    by (intro fold_exports_origin [of "nobjnm_file a"])
       (simp_all add: exports_nobjnm_file main_nobjnm_trace [OF True])
  then show ?thesis by (simp add: exports_prepare_output)
qed

lemma depth_export_mem:
  assumes "x \<in> set (depth_export d n e b)"
  shows "\<exists>poDS. extension e = ''.000'' \<and> GDALOpenEx e = Some poDS \<and> GDALVectorTranslateOptionsNew e \<and>
           fst (layer_loop (depth_layer poDS) all_target_layers) \<noteq> [] \<and>
           x = (d, depth_opts b (join '' UNION ALL '' (fst (layer_loop (depth_layer poDS) all_target_layers))) n,
                GDALVectorTranslate e)"
proof (cases "GDALOpenEx e")
  case None
  then show ?thesis using assms by (simp add: depth_export_None)
next
  case (Some poDS)
  then show ?thesis using assms by (simp add: depth_export_Some split: if_splits)
qed

lemma nobjnm_export_mem:
  assumes "x \<in> set (nobjnm_export a e b)"
  shows "\<exists>poDS. extension e = ''.000'' \<and> GDALOpenEx e = Some poDS \<and> GDALVectorTranslateOptionsNew e \<and>
           fst (layer_loop (nobjnm_layer (level_of (filename e)) (n_filterField a) poDS) (n_targetLayers a)) \<noteq> [] \<and>
           x = (n_outputDir a,
                nobjnm_opts b
                  (join '' UNION ALL ''
                     (fst (layer_loop (nobjnm_layer (level_of (filename e)) (n_filterField a) poDS)
                             (n_targetLayers a))))
                  (n_outputName a),
                GDALVectorTranslate e)"
proof (cases "GDALOpenEx e")
  case None
  then show ?thesis using assms by (simp add: nobjnm_export_None)
next
  case (Some poDS)
  then show ?thesis using assms by (simp add: nobjnm_export_Some split: if_splits)
qed


lemma main_nobjnm_issued:
  assumes p: "snd (prepare_output (n_outputDir a) fs)" and e: "e \<in> set (directory fs)"
    and x: "extension e = ''.000''" and o: "GDALOpenEx e = Some poDS" and n: "GDALVectorTranslateOptionsNew e"
    and ne: "fst (layer_loop (nobjnm_layer (level_of (filename e)) (n_filterField a) poDS) (n_targetLayers a)) \<noteq> []"
  shows "\<exists>first. (n_outputDir a,
            nobjnm_opts first
              (join '' UNION ALL ''
                 (fst (layer_loop (nobjnm_layer (level_of (filename e)) (n_filterField a) poDS) (n_targetLayers a))))
              (n_outputName a),
            GDALVectorTranslate e) \<in> set (exports (trace (snd (main_nobjnm (Options a) fs))))"
  unfolding main_nobjnm_trace [OF p]
  by (rule fold_exports_issued [of "nobjnm_file a" "nobjnm_export a" e _ "directory fs"])
     (simp_all add: exports_nobjnm_file nobjnm_export_Some [OF o] x n ne e)

lemma depth_fragments_filtered:
  assumes "frag \<in> set (fst (layer_loop (depth_layer poDS) all_target_layers))"
  shows "frag = land_fragment ''LNDARE'' \<or>
      (\<exists>n fld. (n, fld) \<in> set depth_map \<and> GetLayerByName poDS n \<noteq> None \<and>
         frag =
           ''SELECT ST_MakeValid(ST_SimplifyPreserveTopology(geometry, 0.00025)) AS WKT, '' @ [sq] @ n @ [sq] @
           '' AS LAYERS, CAST('' @ [dq] @ fld @ [dq] @ '' AS REAL) AS DEPTH FROM '' @ [dq] @ n @ [dq] @
           '' WHERE '' @ [dq] @ fld @ [dq] @ '' IS NOT NULL AND '' @ [dq] @ fld @ [dq] @ '' != '' @ [sq, sq])"
proof -
  obtain n where n: "n \<in> set all_target_layers" "GetLayerByName poDS n \<noteq> None"
      "n = ''LNDARE'' \<or> map_of depth_map n \<noteq> None" "frag = depth_rule n"
    using assms loop_filter [of all_target_layers "depth_layer poDS", OF depth_layer_fst] by auto
  show ?thesis
  proof (cases "n = ''LNDARE''")
    case True
    then show ?thesis using n(4) by (simp add: depth_rule_def)
  next
    case False
    then obtain fld where fld: "map_of depth_map n = Some fld" using n(3) by auto
    then have "(n, fld) \<in> set depth_map" by (rule map_of_SomeD)
    moreover have "frag = depth_fragment n fld" using n(4) False fld by (simp add: depth_rule_def)
    ultimately show ?thesis using n(2) unfolding depth_fragment_def by blast
  qed
qed

lemma nobjnm_fragments_filtered:
  assumes "frag \<in> set (fst (layer_loop (nobjnm_layer level f poDS) layers))"
  shows "\<exists>n \<in> set layers.
         frag =
           ''SELECT ST_MakeValid(ST_SimplifyPreserveTopology(geometry, 0.00025)) AS WKT, '' @ [sq, level, sq] @
           '' AS LEVEL, '' @ [sq] @ n @ [sq] @ '' AS LAYERS, '' @ [dq] @ f @ [dq] @ '' FROM '' @ [dq] @ n @ [dq] @
           '' WHERE '' @ [dq] @ f @ [dq] @ '' IS NOT NULL AND '' @ [dq] @ f @ [dq] @ '' != '' @ [sq, sq]"
proof -
  obtain n where "n \<in> set layers" "frag = nobjnm_fragment level n f"
    using assms by (auto simp add: nobjnm_parts)
  then show ?thesis by (auto simp add: nobjnm_fragment_def)
qed

lemma main_depth_queries:
  assumes "x \<in> set (exports (trace (snd (main_depth (Options a) fs))))"
  shows "\<exists>first parts.
      fst (snd x) =
        [''-f'', ''CSV'', ''-dialect'', ''SQLite''] @ (if first then [] else [''-append'']) @
        [''-sql'', join '' UNION ALL '' parts, ''-nln'', d_outputName a, ''-lco'', ''GEOMETRY=AS_WKT'',
         ''-dim'', ''2''] \<and>
      parts \<noteq> [] \<and>
      (\<forall>frag \<in> set parts.
         frag = land_fragment ''LNDARE'' \<or>
         (\<exists>n fld. (n, fld) \<in> set depth_map \<and>
            frag =
              ''SELECT ST_MakeValid(ST_SimplifyPreserveTopology(geometry, 0.00025)) AS WKT, '' @ [sq] @ n @ [sq] @
              '' AS LAYERS, CAST('' @ [dq] @ fld @ [dq] @ '' AS REAL) AS DEPTH FROM '' @ [dq] @ n @ [dq] @
              '' WHERE '' @ [dq] @ fld @ [dq] @ '' IS NOT NULL AND '' @ [dq] @ fld @ [dq] @ '' != '' @ [sq, sq]))"
proof -
  obtain e b where "x \<in> set (depth_export (d_outputDir a) (d_outputName a) e b)"
    using main_depth_export_origin [OF assms] by blast
  then obtain poDS where ne: "fst (layer_loop (depth_layer poDS) all_target_layers) \<noteq> []"
    and x: "x = (d_outputDir a,
                 depth_opts b (join '' UNION ALL '' (fst (layer_loop (depth_layer poDS) all_target_layers)))
                   (d_outputName a),
                 GDALVectorTranslate e)"
    using depth_export_mem by blast
  have o: "fst (snd x) =
        [''-f'', ''CSV'', ''-dialect'', ''SQLite''] @ (if b then [] else [''-append'']) @
        [''-sql'', join '' UNION ALL '' (fst (layer_loop (depth_layer poDS) all_target_layers)),
         ''-nln'', d_outputName a, ''-lco'', ''GEOMETRY=AS_WKT'', ''-dim'', ''2'']"
    by (simp only: x fst_conv snd_conv depth_opts_shape)
  have f: "\<forall>frag \<in> set (fst (layer_loop (depth_layer poDS) all_target_layers)).
         frag = land_fragment ''LNDARE'' \<or>
         (\<exists>n fld. (n, fld) \<in> set depth_map \<and>
            frag =
              ''SELECT ST_MakeValid(ST_SimplifyPreserveTopology(geometry, 0.00025)) AS WKT, '' @ [sq] @ n @ [sq] @
              '' AS LAYERS, CAST('' @ [dq] @ fld @ [dq] @ '' AS REAL) AS DEPTH FROM '' @ [dq] @ n @ [dq] @
              '' WHERE '' @ [dq] @ fld @ [dq] @ '' IS NOT NULL AND '' @ [dq] @ fld @ [dq] @ '' != '' @ [sq, sq])"
  proof
    fix frag
    assume "frag \<in> set (fst (layer_loop (depth_layer poDS) all_target_layers))"
    from depth_fragments_filtered [OF this]
    show "frag = land_fragment ''LNDARE'' \<or>
         (\<exists>n fld. (n, fld) \<in> set depth_map \<and>
            frag =
              ''SELECT ST_MakeValid(ST_SimplifyPreserveTopology(geometry, 0.00025)) AS WKT, '' @ [sq] @ n @ [sq] @
              '' AS LAYERS, CAST('' @ [dq] @ fld @ [dq] @ '' AS REAL) AS DEPTH FROM '' @ [dq] @ n @ [dq] @
              '' WHERE '' @ [dq] @ fld @ [dq] @ '' IS NOT NULL AND '' @ [dq] @ fld @ [dq] @ '' != '' @ [sq, sq])"
    proof (elim disjE exE conjE)
      assume "frag = land_fragment ''LNDARE''"
      then show ?thesis by (rule disjI1)
    next
      fix n fld
      assume a: "(n, fld) \<in> set depth_map"
        and c: "frag =
              ''SELECT ST_MakeValid(ST_SimplifyPreserveTopology(geometry, 0.00025)) AS WKT, '' @ [sq] @ n @ [sq] @
              '' AS LAYERS, CAST('' @ [dq] @ fld @ [dq] @ '' AS REAL) AS DEPTH FROM '' @ [dq] @ n @ [dq] @
              '' WHERE '' @ [dq] @ fld @ [dq] @ '' IS NOT NULL AND '' @ [dq] @ fld @ [dq] @ '' != '' @ [sq, sq]"
      show ?thesis by (rule disjI2, rule exI, rule exI, rule conjI, rule a, rule c)
    qed
  qed
  show ?thesis
    by (rule exI [of _ b], rule exI [of _ "fst (layer_loop (depth_layer poDS) all_target_layers)"])
       (intro conjI; fact)
qed

lemma main_nobjnm_queries:
  assumes "x \<in> set (exports (trace (snd (main_nobjnm (Options b) fs))))"
  shows "\<exists>e \<in> set (directory fs). \<exists>first parts.
      fst (snd x) =
        [''-f'', ''CSV'', ''-dialect'', ''SQLite''] @ (if first then [] else [''-append'']) @
        [''-sql'', join '' UNION ALL '' parts, ''-nln'', n_outputName b, ''-lco'', ''GEOMETRY=AS_WKT''] \<and>
      parts \<noteq> [] \<and>
      (\<forall>frag \<in> set parts.
         \<exists>n \<in> set (n_targetLayers b).
           frag =
             ''SELECT ST_MakeValid(ST_SimplifyPreserveTopology(geometry, 0.00025)) AS WKT, '' @
             [sq, level_of (filename e), sq] @
             '' AS LEVEL, '' @ [sq] @ n @ [sq] @ '' AS LAYERS, '' @ [dq] @ n_filterField b @ [dq] @ '' FROM '' @
             [dq] @ n @ [dq] @
             '' WHERE '' @ [dq] @ n_filterField b @ [dq] @ '' IS NOT NULL AND '' @ [dq] @ n_filterField b @ [dq] @
             '' != '' @ [sq, sq])"
proof -
  obtain e fl where e: "e \<in> set (directory fs)" and "x \<in> set (nobjnm_export b e fl)"
    using main_nobjnm_export_origin [OF assms] by blast
  then obtain poDS where
    ne: "fst (layer_loop (nobjnm_layer (level_of (filename e)) (n_filterField b) poDS) (n_targetLayers b)) \<noteq> []"
    and x: "x = (n_outputDir b,
                nobjnm_opts fl
                  (join '' UNION ALL ''
                     (fst (layer_loop (nobjnm_layer (level_of (filename e)) (n_filterField b) poDS)
                             (n_targetLayers b))))
                  (n_outputName b),
                GDALVectorTranslate e)"
    using nobjnm_export_mem by blast
  have o: "fst (snd x) =
        [''-f'', ''CSV'', ''-dialect'', ''SQLite''] @ (if fl then [] else [''-append'']) @
        [''-sql'',
         join '' UNION ALL ''
           (fst (layer_loop (nobjnm_layer (level_of (filename e)) (n_filterField b) poDS) (n_targetLayers b))),
         ''-nln'', n_outputName b, ''-lco'', ''GEOMETRY=AS_WKT'']"
    by (simp only: x fst_conv snd_conv nobjnm_opts_shape)
  have f: "\<forall>frag \<in> set (fst (layer_loop (nobjnm_layer (level_of (filename e)) (n_filterField b) poDS)
                                 (n_targetLayers b))).
         \<exists>n \<in> set (n_targetLayers b).
           frag =
             ''SELECT ST_MakeValid(ST_SimplifyPreserveTopology(geometry, 0.00025)) AS WKT, '' @
             [sq, level_of (filename e), sq] @
             '' AS LEVEL, '' @ [sq] @ n @ [sq] @ '' AS LAYERS, '' @ [dq] @ n_filterField b @ [dq] @ '' FROM '' @
             [dq] @ n @ [dq] @
             '' WHERE '' @ [dq] @ n_filterField b @ [dq] @ '' IS NOT NULL AND '' @ [dq] @ n_filterField b @ [dq] @
             '' != '' @ [sq, sq]"
    by (intro ballI) (erule nobjnm_fragments_filtered)
  have q: "\<exists>first parts.
      fst (snd x) =
        [''-f'', ''CSV'', ''-dialect'', ''SQLite''] @ (if first then [] else [''-append'']) @
        [''-sql'', join '' UNION ALL '' parts, ''-nln'', n_outputName b, ''-lco'', ''GEOMETRY=AS_WKT''] \<and>
      parts \<noteq> [] \<and>
      (\<forall>frag \<in> set parts.
         \<exists>n \<in> set (n_targetLayers b).
           frag =
             ''SELECT ST_MakeValid(ST_SimplifyPreserveTopology(geometry, 0.00025)) AS WKT, '' @
             [sq, level_of (filename e), sq] @
             '' AS LEVEL, '' @ [sq] @ n @ [sq] @ '' AS LAYERS, '' @ [dq] @ n_filterField b @ [dq] @ '' FROM '' @
             [dq] @ n @ [dq] @
             '' WHERE '' @ [dq] @ n_filterField b @ [dq] @ '' IS NOT NULL AND '' @ [dq] @ n_filterField b @ [dq] @
             '' != '' @ [sq, sq])"
    by (rule exI [of _ fl],
        rule exI [of _ "fst (layer_loop (nobjnm_layer (level_of (filename e)) (n_filterField b) poDS)
                              (n_targetLayers b))"])
       (intro conjI; fact)
  show ?thesis by (rule bexI [of _ e], rule q, rule e)
qed

text \<open>
  Claim C2. Every fragment for a depth field (every fragment of the depth tool except the land
  one) and every fragment of the generic tool ends with the row filter
  \<open>WHERE "f" IS NOT NULL AND "f" != ''\<close> on the very field it selects. These fragments,
  joined, are the \<open>-sql\<close> query of the one export of the file, and nothing else is ever
  exported: the query of every export of a run is a join of such fragments.
\<close>

theorem null_empty_filter:
  "(\<forall>frag \<in> set (fst (layer_loop (depth_layer poDS) all_target_layers)).
      frag = land_fragment ''LNDARE'' \<or>
      (\<exists>n fld. (n, fld) \<in> set depth_map \<and> GetLayerByName poDS n \<noteq> None \<and>
         frag =
           ''SELECT ST_MakeValid(ST_SimplifyPreserveTopology(geometry, 0.00025)) AS WKT, '' @ [sq] @ n @ [sq] @
           '' AS LAYERS, CAST('' @ [dq] @ fld @ [dq] @ '' AS REAL) AS DEPTH FROM '' @ [dq] @ n @ [dq] @
           '' WHERE '' @ [dq] @ fld @ [dq] @ '' IS NOT NULL AND '' @ [dq] @ fld @ [dq] @ '' != '' @ [sq, sq])) \<and>
   (\<forall>frag \<in> set (fst (layer_loop (nobjnm_layer level f poDS) layers)).
      \<exists>n \<in> set layers.
         frag =
           ''SELECT ST_MakeValid(ST_SimplifyPreserveTopology(geometry, 0.00025)) AS WKT, '' @ [sq, level, sq] @
           '' AS LEVEL, '' @ [sq] @ n @ [sq] @ '' AS LAYERS, '' @ [dq] @ f @ [dq] @ '' FROM '' @ [dq] @ n @ [dq] @
           '' WHERE '' @ [dq] @ f @ [dq] @ '' IS NOT NULL AND '' @ [dq] @ f @ [dq] @ '' != '' @ [sq, sq]) \<and>
   (extension e = ''.000'' \<and> GDALOpenEx e = Some poDS \<and> GDALVectorTranslateOptionsNew e \<and>
    fst (layer_loop (depth_layer poDS) all_target_layers) \<noteq> [] \<longrightarrow>
      exports (trace (depth_file d nm e st)) =
        exports (trace st) @
        [(d,
          [''-f'', ''CSV'', ''-dialect'', ''SQLite''] @ (if isFirstWrite st then [] else [''-append'']) @
          [''-sql'', join '' UNION ALL '' (fst (layer_loop (depth_layer poDS) all_target_layers)),
           ''-nln'', nm, ''-lco'', ''GEOMETRY=AS_WKT'', ''-dim'', ''2''],
          GDALVectorTranslate e)]) \<and>
   (extension e = ''.000'' \<and> GDALOpenEx e = Some poDS \<and> GDALVectorTranslateOptionsNew e \<and>
    fst (layer_loop (nobjnm_layer (level_of (filename e)) (n_filterField b) poDS) (n_targetLayers b)) \<noteq> [] \<longrightarrow>
      exports (trace (nobjnm_file b e st)) =
        exports (trace st) @
        [(n_outputDir b,
          [''-f'', ''CSV'', ''-dialect'', ''SQLite''] @ (if isFirstWrite st then [] else [''-append'']) @
          [''-sql'',
           join '' UNION ALL ''
             (fst (layer_loop (nobjnm_layer (level_of (filename e)) (n_filterField b) poDS) (n_targetLayers b))),
           ''-nln'', n_outputName b, ''-lco'', ''GEOMETRY=AS_WKT''],
          GDALVectorTranslate e)]) \<and>
   (\<forall>x \<in> set (exports (trace (snd (main_depth (Options a) fs)))).
      \<exists>first parts.
        fst (snd x) =
          [''-f'', ''CSV'', ''-dialect'', ''SQLite''] @ (if first then [] else [''-append'']) @
          [''-sql'', join '' UNION ALL '' parts, ''-nln'', d_outputName a, ''-lco'', ''GEOMETRY=AS_WKT'',
           ''-dim'', ''2''] \<and>
        parts \<noteq> [] \<and>
        (\<forall>frag \<in> set parts.
           frag = land_fragment ''LNDARE'' \<or>
           (\<exists>n fld. (n, fld) \<in> set depth_map \<and>
              frag =
                ''SELECT ST_MakeValid(ST_SimplifyPreserveTopology(geometry, 0.00025)) AS WKT, '' @ [sq] @ n @ [sq] @
                '' AS LAYERS, CAST('' @ [dq] @ fld @ [dq] @ '' AS REAL) AS DEPTH FROM '' @ [dq] @ n @ [dq] @
                '' WHERE '' @ [dq] @ fld @ [dq] @ '' IS NOT NULL AND '' @ [dq] @ fld @ [dq] @ '' != '' @ [sq, sq]))) \<and>
   (\<forall>x \<in> set (exports (trace (snd (main_nobjnm (Options b) fs)))).
      \<exists>e \<in> set (directory fs). \<exists>first parts.
        fst (snd x) =
          [''-f'', ''CSV'', ''-dialect'', ''SQLite''] @ (if first then [] else [''-append'']) @
          [''-sql'', join '' UNION ALL '' parts, ''-nln'', n_outputName b, ''-lco'', ''GEOMETRY=AS_WKT''] \<and>
        parts \<noteq> [] \<and>
        (\<forall>frag \<in> set parts.
           \<exists>n \<in> set (n_targetLayers b).
             frag =
               ''SELECT ST_MakeValid(ST_SimplifyPreserveTopology(geometry, 0.00025)) AS WKT, '' @
               [sq, level_of (filename e), sq] @
               '' AS LEVEL, '' @ [sq] @ n @ [sq] @ '' AS LAYERS, '' @ [dq] @ n_filterField b @ [dq] @ '' FROM '' @
               [dq] @ n @ [dq] @
               '' WHERE '' @ [dq] @ n_filterField b @ [dq] @ '' IS NOT NULL AND '' @ [dq] @ n_filterField b @ [dq] @
               '' != '' @ [sq, sq]))"
  apply (intro conjI)
       apply (intro ballI, erule depth_fragments_filtered)
      apply (intro ballI, erule nobjnm_fragments_filtered)
     apply (intro impI, elim conjE)
     apply (simp add: depth_file_def depth_opts_def Let_def trace_emit isFirstWrite_emit exports_append
      exports_depth_loop)
    apply (intro impI, elim conjE)
    apply (simp add: nobjnm_file_def nobjnm_opts_def Let_def trace_emit isFirstWrite_emit exports_append
      exports_nobjnm_loop)
   apply (intro ballI, erule main_depth_queries)
  apply (intro ballI, erule main_nobjnm_queries)
  done


lemma example_entry_fields:
  "extension (example_entry dir name ds ok) = ''.000''"
  "GDALOpenEx (example_entry dir name ds ok) = ds"
  "GDALVectorTranslateOptionsNew (example_entry dir name ds ok)"
  "GDALVectorTranslate (example_entry dir name ds ok) = ok"
  "path_string (example_entry dir name ds ok) = dir @ ''/'' @ name @ ''.000''"
  "filename (example_entry dir name ds ok) = name @ ''.000''"
  by (simp_all add: example_entry_def)

lemma example_level: "level_of ''US5AA03M.000'' = CHR ''5''"
  by code_simp

lemma example_args_fields:
  "n_outputDir example_nobjnm_args = ''out''"
  "n_outputName example_nobjnm_args = ''nobjnm''"
  "n_filterField example_nobjnm_args = ''NOBJNM''"
  "n_targetLayers example_nobjnm_args = [''LNDARE'', ''DEPARE'', ''SEAARE'', ''HRBFAC'', ''BRIDGE'']"
  "d_outputDir example_depth_args = ''out''"
  "d_outputName example_depth_args = ''depth''"
  by (simp_all add: example_nobjnm_args_def example_depth_args_def)

theorem null_empty_filter_witness:
  "exports (trace (depth_file ''out'' ''depth'' (example_entry ''in'' ''US5AA03M'' (Some example_chart) True)
      \<lparr>isFirstWrite = True, trace = []\<rparr>)) =
     [(''out'',
       [''-f'', ''CSV'', ''-dialect'', ''SQLite'', ''-sql'', example_depth_query, ''-nln'', ''depth'',
        ''-lco'', ''GEOMETRY=AS_WKT'', ''-dim'', ''2''],
       True)] \<and>
   exports (trace (nobjnm_file example_nobjnm_args (example_entry ''in'' ''US5AA03M'' (Some example_chart) True)
      \<lparr>isFirstWrite = True, trace = []\<rparr>)) =
     [(''out'',
       [''-f'', ''CSV'', ''-dialect'', ''SQLite'', ''-sql'', example_nobjnm_query, ''-nln'', ''nobjnm'',
        ''-lco'', ''GEOMETRY=AS_WKT''],
       True)] \<and>
   depth_fragment ''SOUNDG'' ''DEPTH'' \<in> set (fst (layer_loop (depth_layer example_chart) all_target_layers)) \<and>
   (\<exists>n fld. (n, fld) \<in> set depth_map \<and> GetLayerByName example_chart n \<noteq> None \<and>
      depth_fragment ''SOUNDG'' ''DEPTH'' =
        ''SELECT ST_MakeValid(ST_SimplifyPreserveTopology(geometry, 0.00025)) AS WKT, '' @ [sq] @ n @ [sq] @
        '' AS LAYERS, CAST('' @ [dq] @ fld @ [dq] @ '' AS REAL) AS DEPTH FROM '' @ [dq] @ n @ [dq] @
        '' WHERE '' @ [dq] @ fld @ [dq] @ '' IS NOT NULL AND '' @ [dq] @ fld @ [dq] @ '' != '' @ [sq, sq]) \<and>
   nobjnm_fragment (CHR ''5'') ''SEAARE'' ''NOBJNM'' \<in>
     set (fst (layer_loop (nobjnm_layer (CHR ''5'') ''NOBJNM'' example_chart)
                 [''LNDARE'', ''DEPARE'', ''SEAARE'', ''HRBFAC'', ''BRIDGE''])) \<and>
   (\<exists>n \<in> set [''LNDARE'', ''DEPARE'', ''SEAARE'', ''HRBFAC'', ''BRIDGE''].
      nobjnm_fragment (CHR ''5'') ''SEAARE'' ''NOBJNM'' =
        ''SELECT ST_MakeValid(ST_SimplifyPreserveTopology(geometry, 0.00025)) AS WKT, '' @ [sq, CHR ''5'', sq] @
        '' AS LEVEL, '' @ [sq] @ n @ [sq] @ '' AS LAYERS, '' @ [dq] @ ''NOBJNM'' @ [dq] @ '' FROM '' @ [dq] @ n @ [dq] @
        '' WHERE '' @ [dq] @ ''NOBJNM'' @ [dq] @ '' IS NOT NULL AND '' @ [dq] @ ''NOBJNM'' @ [dq] @ '' != '' @ [sq, sq]) \<and>
   exports (trace (snd (main_depth (Options example_depth_args) example_fs))) =
     [(''out'',
       [''-f'', ''CSV'', ''-dialect'', ''SQLite'', ''-sql'', example_depth_query, ''-nln'', ''depth'',
        ''-lco'', ''GEOMETRY=AS_WKT'', ''-dim'', ''2''], False),
      (''out'',
       [''-f'', ''CSV'', ''-dialect'', ''SQLite'', ''-sql'', example_depth_query, ''-nln'', ''depth'',
        ''-lco'', ''GEOMETRY=AS_WKT'', ''-dim'', ''2''], True),
      (''out'',
       [''-f'', ''CSV'', ''-dialect'', ''SQLite'', ''-append'', ''-sql'', example_depth_query, ''-nln'', ''depth'',
        ''-lco'', ''GEOMETRY=AS_WKT'', ''-dim'', ''2''], True)] \<and>
   example_depth_query =
     ''SELECT ST_MakeValid(ST_SimplifyPreserveTopology(geometry, 0.00025)) AS WKT, '' @ [sq] @ ''LNDARE'' @ [sq] @
     '' AS LAYERS, CAST(-1 AS REAL) AS DEPTH FROM '' @ [dq] @ ''LNDARE'' @ [dq] @ '' UNION ALL '' @
     ''SELECT ST_MakeValid(ST_SimplifyPreserveTopology(geometry, 0.00025)) AS WKT, '' @ [sq] @ ''DEPARE'' @ [sq] @
     '' AS LAYERS, CAST('' @ [dq] @ ''DRVAL1'' @ [dq] @ '' AS REAL) AS DEPTH FROM '' @ [dq] @ ''DEPARE'' @ [dq] @
     '' WHERE '' @ [dq] @ ''DRVAL1'' @ [dq] @ '' IS NOT NULL AND '' @ [dq] @ ''DRVAL1'' @ [dq] @ '' != '' @ [sq, sq] @
     '' UNION ALL '' @
     ''SELECT ST_MakeValid(ST_SimplifyPreserveTopology(geometry, 0.00025)) AS WKT, '' @ [sq] @ ''SOUNDG'' @ [sq] @
     '' AS LAYERS, CAST('' @ [dq] @ ''DEPTH'' @ [dq] @ '' AS REAL) AS DEPTH FROM '' @ [dq] @ ''SOUNDG'' @ [dq] @
     '' WHERE '' @ [dq] @ ''DEPTH'' @ [dq] @ '' IS NOT NULL AND '' @ [dq] @ ''DEPTH'' @ [dq] @ '' != '' @ [sq, sq] \<and>
   exports (trace (snd (main_nobjnm (Options example_nobjnm_args) example_fs))) =
     [(''out'',
       [''-f'', ''CSV'', ''-dialect'', ''SQLite'', ''-sql'', example_nobjnm_query, ''-nln'', ''nobjnm'',
        ''-lco'', ''GEOMETRY=AS_WKT''], False),
      (''out'',
       [''-f'', ''CSV'', ''-dialect'', ''SQLite'', ''-sql'', example_nobjnm_query, ''-nln'', ''nobjnm'',
        ''-lco'', ''GEOMETRY=AS_WKT''], True),
      (''out'',
       [''-f'', ''CSV'', ''-dialect'', ''SQLite'', ''-append'', ''-sql'', example_nobjnm_query, ''-nln'', ''nobjnm'',
        ''-lco'', ''GEOMETRY=AS_WKT''], True)]"
proof -
  let ?E = "example_entry ''in'' ''US5AA03M'' (Some example_chart) True"
  let ?st = "\<lparr>isFirstWrite = True, trace = []\<rparr>"
  have r1: "exports (trace (snd (main_depth (Options example_depth_args) example_fs))) =
     [(''out'',
       [''-f'', ''CSV'', ''-dialect'', ''SQLite'', ''-sql'', example_depth_query, ''-nln'', ''depth'',
        ''-lco'', ''GEOMETRY=AS_WKT'', ''-dim'', ''2''], False),
      (''out'',
       [''-f'', ''CSV'', ''-dialect'', ''SQLite'', ''-sql'', example_depth_query, ''-nln'', ''depth'',
        ''-lco'', ''GEOMETRY=AS_WKT'', ''-dim'', ''2''], True),
      (''out'',
       [''-f'', ''CSV'', ''-dialect'', ''SQLite'', ''-append'', ''-sql'', example_depth_query, ''-nln'', ''depth'',
        ''-lco'', ''GEOMETRY=AS_WKT'', ''-dim'', ''2''], True)]"
    by code_simp
  have r2: "example_depth_query =
     ''SELECT ST_MakeValid(ST_SimplifyPreserveTopology(geometry, 0.00025)) AS WKT, '' @ [sq] @ ''LNDARE'' @ [sq] @
     '' AS LAYERS, CAST(-1 AS REAL) AS DEPTH FROM '' @ [dq] @ ''LNDARE'' @ [dq] @ '' UNION ALL '' @
     ''SELECT ST_MakeValid(ST_SimplifyPreserveTopology(geometry, 0.00025)) AS WKT, '' @ [sq] @ ''DEPARE'' @ [sq] @
     '' AS LAYERS, CAST('' @ [dq] @ ''DRVAL1'' @ [dq] @ '' AS REAL) AS DEPTH FROM '' @ [dq] @ ''DEPARE'' @ [dq] @
     '' WHERE '' @ [dq] @ ''DRVAL1'' @ [dq] @ '' IS NOT NULL AND '' @ [dq] @ ''DRVAL1'' @ [dq] @ '' != '' @ [sq, sq] @
     '' UNION ALL '' @
     ''SELECT ST_MakeValid(ST_SimplifyPreserveTopology(geometry, 0.00025)) AS WKT, '' @ [sq] @ ''SOUNDG'' @ [sq] @
     '' AS LAYERS, CAST('' @ [dq] @ ''DEPTH'' @ [dq] @ '' AS REAL) AS DEPTH FROM '' @ [dq] @ ''SOUNDG'' @ [dq] @
     '' WHERE '' @ [dq] @ ''DEPTH'' @ [dq] @ '' IS NOT NULL AND '' @ [dq] @ ''DEPTH'' @ [dq] @ '' != '' @ [sq, sq]"
    by code_simp
  have r3: "exports (trace (snd (main_nobjnm (Options example_nobjnm_args) example_fs))) =
     [(''out'',
       [''-f'', ''CSV'', ''-dialect'', ''SQLite'', ''-sql'', example_nobjnm_query, ''-nln'', ''nobjnm'',
        ''-lco'', ''GEOMETRY=AS_WKT''], False),
      (''out'',
       [''-f'', ''CSV'', ''-dialect'', ''SQLite'', ''-sql'', example_nobjnm_query, ''-nln'', ''nobjnm'',
        ''-lco'', ''GEOMETRY=AS_WKT''], True),
      (''out'',
       [''-f'', ''CSV'', ''-dialect'', ''SQLite'', ''-append'', ''-sql'', example_nobjnm_query, ''-nln'', ''nobjnm'',
        ''-lco'', ''GEOMETRY=AS_WKT''], True)]"
    by code_simp
  note t = null_empty_filter [of example_chart "CHR ''5''" "''NOBJNM''"
      "[''LNDARE'', ''DEPARE'', ''SEAARE'', ''HRBFAC'', ''BRIDGE'']" ?E "''out''" "''depth''" ?st
      example_nobjnm_args example_depth_args example_fs]
  have hd: "extension ?E = ''.000'' \<and> GDALOpenEx ?E = Some example_chart \<and> GDALVectorTranslateOptionsNew ?E \<and>
      fst (layer_loop (depth_layer example_chart) all_target_layers) \<noteq> []"
    by (simp add: example_entry_fields example_depth_parts)
  have hn: "extension ?E = ''.000'' \<and> GDALOpenEx ?E = Some example_chart \<and> GDALVectorTranslateOptionsNew ?E \<and>
      fst (layer_loop (nobjnm_layer (level_of (filename ?E)) (n_filterField example_nobjnm_args) example_chart)
             (n_targetLayers example_nobjnm_args)) \<noteq> []"
    by (simp add: example_entry_fields example_args_fields example_level example_nobjnm_parts)
  have m: "depth_fragment ''SOUNDG'' ''DEPTH'' \<in> set (fst (layer_loop (depth_layer example_chart) all_target_layers))"
    by (simp only: example_depth_parts) simp
  have m': "nobjnm_fragment (CHR ''5'') ''SEAARE'' ''NOBJNM'' \<in>
     set (fst (layer_loop (nobjnm_layer (CHR ''5'') ''NOBJNM'' example_chart)
                 [''LNDARE'', ''DEPARE'', ''SEAARE'', ''HRBFAC'', ''BRIDGE'']))"
    by (simp only: example_nobjnm_parts) simp
  note c1 = t [THEN conjunct1, THEN bspec, OF m]
  note c2 = t [THEN conjunct2, THEN conjunct1, THEN bspec, OF m']
  note c3 = t [THEN conjunct2, THEN conjunct2, THEN conjunct1, THEN mp, OF hd]
  note c4 = t [THEN conjunct2, THEN conjunct2, THEN conjunct2, THEN conjunct1, THEN mp, OF hn]
  have e1: "exports (trace (depth_file ''out'' ''depth'' ?E ?st)) =
     [(''out'',
       [''-f'', ''CSV'', ''-dialect'', ''SQLite'', ''-sql'', example_depth_query, ''-nln'', ''depth'',
        ''-lco'', ''GEOMETRY=AS_WKT'', ''-dim'', ''2''],
       True)]"
    using c3 by (simp add: example_depth_parts example_depth_query_def example_entry_fields)
  have e2: "exports (trace (nobjnm_file example_nobjnm_args ?E ?st)) =
     [(''out'',
       [''-f'', ''CSV'', ''-dialect'', ''SQLite'', ''-sql'', example_nobjnm_query, ''-nln'', ''nobjnm'',
        ''-lco'', ''GEOMETRY=AS_WKT''],
       True)]"
    using c4
    by (simp add: example_entry_fields example_args_fields example_level example_nobjnm_parts example_nobjnm_query_def)
  from c1 soundings_not_land have a: "\<exists>n fld. (n, fld) \<in> set depth_map \<and> GetLayerByName example_chart n \<noteq> None \<and>
      depth_fragment ''SOUNDG'' ''DEPTH'' =
        ''SELECT ST_MakeValid(ST_SimplifyPreserveTopology(geometry, 0.00025)) AS WKT, '' @ [sq] @ n @ [sq] @
        '' AS LAYERS, CAST('' @ [dq] @ fld @ [dq] @ '' AS REAL) AS DEPTH FROM '' @ [dq] @ n @ [dq] @
        '' WHERE '' @ [dq] @ fld @ [dq] @ '' IS NOT NULL AND '' @ [dq] @ fld @ [dq] @ '' != '' @ [sq, sq]"
    by (elim disjE) (erule notE [rotated], assumption+)
  from e1 e2 m a m' c2 r1 r2 r3 show ?thesis by (intro conjI)
qed

lemma nobjnm_fragment_level:
  "\<exists>rest. nobjnm_fragment level n f =
     ''SELECT ST_MakeValid(ST_SimplifyPreserveTopology(geometry, 0.00025)) AS WKT, '' @
     [sq, level, sq] @ '' AS LEVEL, '' @ rest"
  by (simp add: nobjnm_fragment_def)

lemma nobjnm_fragments_level:
  assumes "frag \<in> set (fst (layer_loop (nobjnm_layer level f poDS) layers))"
  shows "\<exists>rest. frag =
     ''SELECT ST_MakeValid(ST_SimplifyPreserveTopology(geometry, 0.00025)) AS WKT, '' @
     [sq, level, sq] @ '' AS LEVEL, '' @ rest"
proof -
  obtain n where "frag = nobjnm_fragment level n f"
    using assms by (auto simp add: nobjnm_parts)
  then show ?thesis using nobjnm_fragment_level [of level n f] by simp
qed

lemma nobjnm_parts_nonempty:
  "\<exists>n \<in> set layers. \<exists>l. GetLayerByName poDS n = Some l \<and> GetFieldIndex l f \<noteq> - 1 \<Longrightarrow>
   fst (layer_loop (nobjnm_layer level f poDS) layers) \<noteq> []"
  by (auto simp add: nobjnm_parts filter_empty_conv)

lemma main_nobjnm_issued_levels:
  assumes "snd (prepare_output (n_outputDir a) fs)" and "e \<in> set (directory fs)"
    and "extension e = ''.000''" and "GDALOpenEx e = Some poDS" and "GDALVectorTranslateOptionsNew e"
    and "\<exists>n \<in> set (n_targetLayers a). \<exists>l. GetLayerByName poDS n = Some l \<and> GetFieldIndex l (n_filterField a) \<noteq> - 1"
  shows "\<exists>first.
     (n_outputDir a,
      [''-f'', ''CSV'', ''-dialect'', ''SQLite''] @ (if first then [] else [''-append'']) @
      [''-sql'',
       join '' UNION ALL ''
         (map (\<lambda>n. nobjnm_fragment (level_of (filename e)) n (n_filterField a))
            (filter (\<lambda>n. \<exists>l. GetLayerByName poDS n = Some l \<and> GetFieldIndex l (n_filterField a) \<noteq> - 1)
               (n_targetLayers a))),
       ''-nln'', n_outputName a, ''-lco'', ''GEOMETRY=AS_WKT''],
      GDALVectorTranslate e) \<in> set (exports (trace (snd (main_nobjnm (Options a) fs))))"
  using main_nobjnm_issued [OF assms(1-5) nobjnm_parts_nonempty [OF assms(6)]]
  by (simp only: nobjnm_parts nobjnm_opts_shape)

lemma main_nobjnm_levels:
  assumes "x \<in> set (exports (trace (snd (main_nobjnm (Options a) fs))))"
  shows "\<exists>e \<in> set (directory fs). \<exists>first parts.
      fst (snd x) =
        [''-f'', ''CSV'', ''-dialect'', ''SQLite''] @ (if first then [] else [''-append'']) @
        [''-sql'', join '' UNION ALL '' parts, ''-nln'', n_outputName a, ''-lco'', ''GEOMETRY=AS_WKT''] \<and>
      parts \<noteq> [] \<and>
      (\<forall>frag \<in> set parts.
         \<exists>rest. frag =
           ''SELECT ST_MakeValid(ST_SimplifyPreserveTopology(geometry, 0.00025)) AS WKT, '' @
           [sq, level_of (filename e), sq] @ '' AS LEVEL, '' @ rest)"
proof -
  obtain e fl where e: "e \<in> set (directory fs)" and "x \<in> set (nobjnm_export a e fl)"
    using main_nobjnm_export_origin [OF assms] by blast
  then obtain poDS where
    ne: "fst (layer_loop (nobjnm_layer (level_of (filename e)) (n_filterField a) poDS) (n_targetLayers a)) \<noteq> []"
    and x: "x = (n_outputDir a,
                nobjnm_opts fl
                  (join '' UNION ALL ''
                     (fst (layer_loop (nobjnm_layer (level_of (filename e)) (n_filterField a) poDS)
                             (n_targetLayers a))))
                  (n_outputName a),
                GDALVectorTranslate e)"
    using nobjnm_export_mem by blast
  have o: "fst (snd x) =
        [''-f'', ''CSV'', ''-dialect'', ''SQLite''] @ (if fl then [] else [''-append'']) @
        [''-sql'',
         join '' UNION ALL ''
           (fst (layer_loop (nobjnm_layer (level_of (filename e)) (n_filterField a) poDS) (n_targetLayers a))),
         ''-nln'', n_outputName a, ''-lco'', ''GEOMETRY=AS_WKT'']"
    by (simp only: x fst_conv snd_conv nobjnm_opts_shape)
  have f: "\<forall>frag \<in> set (fst (layer_loop (nobjnm_layer (level_of (filename e)) (n_filterField a) poDS)
                                 (n_targetLayers a))).
         \<exists>rest. frag =
           ''SELECT ST_MakeValid(ST_SimplifyPreserveTopology(geometry, 0.00025)) AS WKT, '' @
           [sq, level_of (filename e), sq] @ '' AS LEVEL, '' @ rest"
    by (intro ballI) (erule nobjnm_fragments_level)
  have q: "\<exists>first parts.
      fst (snd x) =
        [''-f'', ''CSV'', ''-dialect'', ''SQLite''] @ (if first then [] else [''-append'']) @
        [''-sql'', join '' UNION ALL '' parts, ''-nln'', n_outputName a, ''-lco'', ''GEOMETRY=AS_WKT''] \<and>
      parts \<noteq> [] \<and>
      (\<forall>frag \<in> set parts.
         \<exists>rest. frag =
           ''SELECT ST_MakeValid(ST_SimplifyPreserveTopology(geometry, 0.00025)) AS WKT, '' @
           [sq, level_of (filename e), sq] @ '' AS LEVEL, '' @ rest)"
    by (rule exI [of _ fl],
        rule exI [of _ "fst (layer_loop (nobjnm_layer (level_of (filename e)) (n_filterField a) poDS)
                              (n_targetLayers a))"])
       (intro conjI; fact)
  show ?thesis by (rule bexI [of _ e], rule q, rule e)
qed

text \<open>
  Claim C8. In the generic tool the level is one character of the file name, the third one
  when the name has at least three characters and \<open>0\<close> otherwise. Every fragment
  built for the file carries it as the constant column \<open>LEVEL\<close>. The fragments of the
  file, joined, are handed to its export as the \<open>-sql\<close> option, and every export of a run
  carries the query of one file, all of whose fragments have the level of that file.
\<close>

theorem level_code:
  "level_of fname = (case fname of a # b # c # rest \<Rightarrow> c | _ \<Rightarrow> CHR ''0'') \<and>
   (\<forall>frag \<in> set (fst (layer_loop (nobjnm_layer (level_of (filename e)) (n_filterField a) poDS)
                          (n_targetLayers a))).
      \<exists>rest. frag =
        ''SELECT ST_MakeValid(ST_SimplifyPreserveTopology(geometry, 0.00025)) AS WKT, '' @
        [sq, level_of (filename e), sq] @ '' AS LEVEL, '' @ rest) \<and>
   (extension e = ''.000'' \<and> GDALOpenEx e = Some poDS \<and> GDALVectorTranslateOptionsNew e \<and>
    (\<exists>n \<in> set (n_targetLayers a). \<exists>l. GetLayerByName poDS n = Some l \<and> GetFieldIndex l (n_filterField a) \<noteq> - 1)
    \<longrightarrow>
      exports (trace (nobjnm_file a e st)) =
        exports (trace st) @
        [(n_outputDir a,
          [''-f'', ''CSV'', ''-dialect'', ''SQLite''] @ (if isFirstWrite st then [] else [''-append'']) @
          [''-sql'',
           join '' UNION ALL ''
             (map (\<lambda>n. nobjnm_fragment (level_of (filename e)) n (n_filterField a))
                (filter (\<lambda>n. \<exists>l. GetLayerByName poDS n = Some l \<and> GetFieldIndex l (n_filterField a) \<noteq> - 1)
                   (n_targetLayers a))),
           ''-nln'', n_outputName a, ''-lco'', ''GEOMETRY=AS_WKT''],
          GDALVectorTranslate e)]) \<and>
   (snd (prepare_output (n_outputDir a) fs) \<and> e \<in> set (directory fs) \<and>
    extension e = ''.000'' \<and> GDALOpenEx e = Some poDS \<and> GDALVectorTranslateOptionsNew e \<and>
    (\<exists>n \<in> set (n_targetLayers a). \<exists>l. GetLayerByName poDS n = Some l \<and> GetFieldIndex l (n_filterField a) \<noteq> - 1)
    \<longrightarrow>
      (\<exists>first.
         (n_outputDir a,
          [''-f'', ''CSV'', ''-dialect'', ''SQLite''] @ (if first then [] else [''-append'']) @
          [''-sql'',
           join '' UNION ALL ''
             (map (\<lambda>n. nobjnm_fragment (level_of (filename e)) n (n_filterField a))
                (filter (\<lambda>n. \<exists>l. GetLayerByName poDS n = Some l \<and> GetFieldIndex l (n_filterField a) \<noteq> - 1)
                   (n_targetLayers a))),
           ''-nln'', n_outputName a, ''-lco'', ''GEOMETRY=AS_WKT''],
          GDALVectorTranslate e) \<in> set (exports (trace (snd (main_nobjnm (Options a) fs)))))) \<and>
   (\<forall>x \<in> set (exports (trace (snd (main_nobjnm (Options a) fs)))).
      \<exists>e \<in> set (directory fs). \<exists>first parts.
        fst (snd x) =
          [''-f'', ''CSV'', ''-dialect'', ''SQLite''] @ (if first then [] else [''-append'']) @
          [''-sql'', join '' UNION ALL '' parts, ''-nln'', n_outputName a, ''-lco'', ''GEOMETRY=AS_WKT''] \<and>
        parts \<noteq> [] \<and>
        (\<forall>frag \<in> set parts.
           \<exists>rest. frag =
             ''SELECT ST_MakeValid(ST_SimplifyPreserveTopology(geometry, 0.00025)) AS WKT, '' @
             [sq, level_of (filename e), sq] @ '' AS LEVEL, '' @ rest))"
  apply (intro conjI)
      apply (rule level_of_cases)
     apply (intro ballI, erule nobjnm_fragments_level)
    apply (intro impI, elim conjE)
    apply (simp add: nobjnm_file_def nobjnm_opts_def Let_def trace_emit isFirstWrite_emit exports_append
      exports_nobjnm_loop nobjnm_parts filter_empty_conv)
   apply (intro impI, elim conjE, erule (5) main_nobjnm_issued_levels)
  apply (intro ballI, erule main_nobjnm_levels)
  done

theorem level_code_witness:
  "level_of (filename (example_entry ''in'' ''US5AA03M'' (Some example_chart) True)) = CHR ''5'' \<and>
   extension (example_entry ''in'' ''US5AA03M'' (Some example_chart) True) = ''.000'' \<and>
   GDALOpenEx (example_entry ''in'' ''US5AA03M'' (Some example_chart) True) = Some example_chart \<and>
   GDALVectorTranslateOptionsNew (example_entry ''in'' ''US5AA03M'' (Some example_chart) True) \<and>
   (\<exists>n \<in> set (n_targetLayers example_nobjnm_args).
      \<exists>l. GetLayerByName example_chart n = Some l \<and> GetFieldIndex l (n_filterField example_nobjnm_args) \<noteq> - 1) \<and>
   exports (trace (nobjnm_file example_nobjnm_args (example_entry ''in'' ''US5AA03M'' (Some example_chart) True)
                     \<lparr>isFirstWrite = True, trace = []\<rparr>)) =
     [(''out'',
       [''-f'', ''CSV'', ''-dialect'', ''SQLite'', ''-sql'', example_nobjnm_query, ''-nln'', ''nobjnm'',
        ''-lco'', ''GEOMETRY=AS_WKT''],
       True)] \<and>
   example_nobjnm_query =
     ''SELECT ST_MakeValid(ST_SimplifyPreserveTopology(geometry, 0.00025)) AS WKT, '' @ [sq] @ ''5'' @ [sq] @
     '' AS LEVEL, '' @ [sq] @ ''LNDARE'' @ [sq] @ '' AS LAYERS, '' @ [dq] @ ''NOBJNM'' @ [dq] @ '' FROM '' @
     [dq] @ ''LNDARE'' @ [dq] @ '' WHERE '' @ [dq] @ ''NOBJNM'' @ [dq] @ '' IS NOT NULL AND '' @ [dq] @
     ''NOBJNM'' @ [dq] @ '' != '' @ [sq, sq] @ '' UNION ALL '' @
     ''SELECT ST_MakeValid(ST_SimplifyPreserveTopology(geometry, 0.00025)) AS WKT, '' @ [sq] @ ''5'' @ [sq] @
     '' AS LEVEL, '' @ [sq] @ ''SEAARE'' @ [sq] @ '' AS LAYERS, '' @ [dq] @ ''NOBJNM'' @ [dq] @ '' FROM '' @
     [dq] @ ''SEAARE'' @ [dq] @ '' WHERE '' @ [dq] @ ''NOBJNM'' @ [dq] @ '' IS NOT NULL AND '' @ [dq] @
     ''NOBJNM'' @ [dq] @ '' != '' @ [sq, sq] \<and>
   exports (trace (snd (main_nobjnm (Options example_nobjnm_args) example_fs))) =
     [(''out'',
       [''-f'', ''CSV'', ''-dialect'', ''SQLite'', ''-sql'', example_nobjnm_query, ''-nln'', ''nobjnm'',
        ''-lco'', ''GEOMETRY=AS_WKT''], False),
      (''out'',
       [''-f'', ''CSV'', ''-dialect'', ''SQLite'', ''-sql'', example_nobjnm_query, ''-nln'', ''nobjnm'',
        ''-lco'', ''GEOMETRY=AS_WKT''], True),
      (''out'',
       [''-f'', ''CSV'', ''-dialect'', ''SQLite'', ''-append'', ''-sql'', example_nobjnm_query, ''-nln'', ''nobjnm'',
        ''-lco'', ''GEOMETRY=AS_WKT''], True)]"
proof -
  let ?E = "example_entry ''in'' ''US5AA03M'' (Some example_chart) True"
  let ?st = "\<lparr>isFirstWrite = True, trace = []\<rparr>"
  have q: "example_nobjnm_query =
     ''SELECT ST_MakeValid(ST_SimplifyPreserveTopology(geometry, 0.00025)) AS WKT, '' @ [sq] @ ''5'' @ [sq] @
     '' AS LEVEL, '' @ [sq] @ ''LNDARE'' @ [sq] @ '' AS LAYERS, '' @ [dq] @ ''NOBJNM'' @ [dq] @ '' FROM '' @
     [dq] @ ''LNDARE'' @ [dq] @ '' WHERE '' @ [dq] @ ''NOBJNM'' @ [dq] @ '' IS NOT NULL AND '' @ [dq] @
     ''NOBJNM'' @ [dq] @ '' != '' @ [sq, sq] @ '' UNION ALL '' @
     ''SELECT ST_MakeValid(ST_SimplifyPreserveTopology(geometry, 0.00025)) AS WKT, '' @ [sq] @ ''5'' @ [sq] @
     '' AS LEVEL, '' @ [sq] @ ''SEAARE'' @ [sq] @ '' AS LAYERS, '' @ [dq] @ ''NOBJNM'' @ [dq] @ '' FROM '' @
     [dq] @ ''SEAARE'' @ [dq] @ '' WHERE '' @ [dq] @ ''NOBJNM'' @ [dq] @ '' IS NOT NULL AND '' @ [dq] @
     ''NOBJNM'' @ [dq] @ '' != '' @ [sq, sq]"
    by code_simp
  have r3: "exports (trace (snd (main_nobjnm (Options example_nobjnm_args) example_fs))) =
     [(''out'',
       [''-f'', ''CSV'', ''-dialect'', ''SQLite'', ''-sql'', example_nobjnm_query, ''-nln'', ''nobjnm'',
        ''-lco'', ''GEOMETRY=AS_WKT''], False),
      (''out'',
       [''-f'', ''CSV'', ''-dialect'', ''SQLite'', ''-sql'', example_nobjnm_query, ''-nln'', ''nobjnm'',
        ''-lco'', ''GEOMETRY=AS_WKT''], True),
      (''out'',
       [''-f'', ''CSV'', ''-dialect'', ''SQLite'', ''-append'', ''-sql'', example_nobjnm_query, ''-nln'', ''nobjnm'',
        ''-lco'', ''GEOMETRY=AS_WKT''], True)]"
    by code_simp
  note t = level_code [of "filename ?E" ?E example_nobjnm_args example_chart ?st example_fs]
  have l: "level_of (filename ?E) = CHR ''5''"
    by (simp add: example_entry_fields example_level)
  have h: "extension ?E = ''.000''" "GDALOpenEx ?E = Some example_chart" "GDALVectorTranslateOptionsNew ?E"
    by (simp_all add: example_entry_fields)
  have p: "\<exists>n \<in> set (n_targetLayers example_nobjnm_args).
      \<exists>l. GetLayerByName example_chart n = Some l \<and> GetFieldIndex l (n_filterField example_nobjnm_args) \<noteq> - 1"
    by (simp add: example_args_fields example_chart_layers example_layer_fields)
  note c3 = t [THEN conjunct2, THEN conjunct2, THEN conjunct1, THEN mp, OF conjI [OF h(1) conjI [OF h(2) conjI [OF h(3) p]]]]
  have e: "exports (trace (nobjnm_file example_nobjnm_args ?E ?st)) =
     [(''out'',
       [''-f'', ''CSV'', ''-dialect'', ''SQLite'', ''-sql'', example_nobjnm_query, ''-nln'', ''nobjnm'',
        ''-lco'', ''GEOMETRY=AS_WKT''],
       True)]"
    using c3
    by (simp add: example_entry_fields example_args_fields example_level example_chart_layers
        example_layer_fields example_nobjnm_query_def)
  from l h p e q r3 show ?thesis by (intro conjI)
qed

subsection \<open>The land layer\<close>









end
